theory Spec2Isabelle
  imports Main
begin

section \<open>Byte strings\<close>

text \<open>
  Go strings and byte slices are sequences of bytes; they are modelled by \<open>string\<close>
  (a list of 8-bit characters).  Go's \<open>int\<close> (64 bits on the platforms modelled) is
  modelled by \<open>int\<close>: the decoder below only ever stores values that fit 64 bits, and
  the package does no arithmetic on them.
\<close>

definition byte :: "char \<Rightarrow> int" where
  "byte c = of_char c"

definition quote :: char where
  "quote = CHR 0x22"

definition backslash :: char where
  "backslash = CHR 0x5C"

definition isSpace :: "char \<Rightarrow> bool" where
  "isSpace c = (c = CHR 0x20 \<or> c = CHR 0x09 \<or> c = CHR 0x0D \<or> c = CHR 0x0A)"

definition isDigit :: "char \<Rightarrow> bool" where
  "isDigit c = (48 \<le> byte c \<and> byte c \<le> 57)"

definition skipSpace :: "string \<Rightarrow> string" where
  "skipSpace s = dropWhile isSpace s"

definition digitsValue :: "string \<Rightarrow> int" where
  "digitsValue ds = foldl (\<lambda>n c. 10 * n + (byte c - 48)) 0 ds"

section \<open>The fragment of encoding/json that the package calls\<close>

text \<open>
  \<open>json.Unmarshal\<close> belongs to the Go standard library, not to this package.  It is
  modelled here as far as the package uses it: the syntax check of the whole input
  (\<open>checkValid\<close>), and the decoding of a value into the struct types of the package
  (\<open>json.RawMessage\<close>, \<open>string\<close>, \<open>int\<close> and \<open>[]interface{}\<close> fields).

  A parsed value keeps what the decoder reads from it: the text of a number, the text of
  a string between its quotes (still escaped), and for an array or an object the exact
  bytes from its opening to its closing bracket, which is what a \<open>json.RawMessage\<close>
  field receives.
\<close>

datatype json =
    JNull
  | JBool bool
  | JNumber string
  | JString string
  | JArray string "json list"
  | JObject string "(string \<times> json) list"

datatype json_error =
    SyntaxError
  | UnmarshalTypeError string

subsection \<open>Scanning\<close>

definition maxNestingDepth :: int where
  "maxNestingDepth = 10000"

definition isHex :: "char \<Rightarrow> bool" where
  "isHex c = (isDigit c \<or> (97 \<le> byte c \<and> byte c \<le> 102) \<or> (65 \<le> byte c \<and> byte c \<le> 70))"

definition isSimpleEscape :: "char \<Rightarrow> bool" where
  "isSimpleEscape c = (c = quote \<or> c = backslash \<or> c = CHR ''/'' \<or> c = CHR ''b'' \<or>
     c = CHR ''f'' \<or> c = CHR ''n'' \<or> c = CHR ''r'' \<or> c = CHR ''t'')"

text \<open>
  \<open>scanString s\<close> reads a string literal whose opening quote has been consumed: the
  text up to the closing quote, and the input after it.  Control characters and
  malformed escapes are syntax errors; bytes above 0x7F pass unchecked.
\<close>

fun scanString :: "string \<Rightarrow> (string \<times> string) option" where
  "scanString [] = None"
| "scanString (c # cs) =
     (if c = quote then Some ([], cs)
      else if c = backslash then
        (case cs of
           [] \<Rightarrow> None
         | e # es \<Rightarrow>
             if isSimpleEscape e then
               (case scanString es of
                  None \<Rightarrow> None
                | Some (s, rest) \<Rightarrow> Some (c # e # s, rest))
             else if e = CHR ''u'' then
               (case es of
                  h1 # h2 # h3 # h4 # r \<Rightarrow>
                    if isHex h1 \<and> isHex h2 \<and> isHex h3 \<and> isHex h4 then
                      (case scanString r of
                         None \<Rightarrow> None
                       | Some (s, rest) \<Rightarrow> Some (c # e # h1 # h2 # h3 # h4 # s, rest))
                    else None
                | _ \<Rightarrow> None)
             else None)
      else if byte c < 32 then None
      else
        (case scanString cs of
           None \<Rightarrow> None
         | Some (s, rest) \<Rightarrow> Some (c # s, rest)))"

text \<open>
  A number is \<open>-? (0 | [1-9][0-9]*) (. [0-9]+)? ([eE] [+-]? [0-9]+)?\<close>.  Each function
  returns the input after the part it reads.
\<close>

definition scanInt :: "string \<Rightarrow> string option" where
  "scanInt s =
     (case s of
        [] \<Rightarrow> None
      | c # cs \<Rightarrow>
          if c = CHR ''0'' then Some cs
          else if isDigit c then Some (dropWhile isDigit cs)
          else None)"

definition scanFrac :: "string \<Rightarrow> string option" where
  "scanFrac s =
     (case s of
        [] \<Rightarrow> Some s
      | c # cs \<Rightarrow>
          if c = CHR ''.'' then
            (case cs of
               [] \<Rightarrow> None
             | d # ds \<Rightarrow> if isDigit d then Some (dropWhile isDigit ds) else None)
          else Some s)"

definition scanExp :: "string \<Rightarrow> string option" where
  "scanExp s =
     (case s of
        [] \<Rightarrow> Some s
      | c # cs \<Rightarrow>
          if c = CHR ''e'' \<or> c = CHR ''E'' then
            (let ds = (case cs of
                         [] \<Rightarrow> cs
                       | g # gs \<Rightarrow> if g = CHR ''+'' \<or> g = CHR ''-'' then gs else cs)
             in case ds of
                  [] \<Rightarrow> None
                | d # ds' \<Rightarrow> if isDigit d then Some (dropWhile isDigit ds') else None)
          else Some s)"

definition scanNumber :: "string \<Rightarrow> (string \<times> string) option" where
  "scanNumber s =
     (let s1 = (case s of [] \<Rightarrow> s | c # cs \<Rightarrow> if c = CHR ''-'' then cs else s)
      in case scanInt s1 of
           None \<Rightarrow> None
         | Some s2 \<Rightarrow>
             (case scanFrac s2 of
                None \<Rightarrow> None
              | Some s3 \<Rightarrow>
                  (case scanExp s3 of
                     None \<Rightarrow> None
                   | Some rest \<Rightarrow> Some (take (length s - length rest) s, rest))))"

definition scanWord :: "string \<Rightarrow> string \<Rightarrow> string option" where
  "scanWord w s = (if take (length w) s = w then Some (drop (length w) s) else None)"

text \<open>
  \<open>parseValue d s\<close> reads one value at the head of \<open>s\<close> (which starts at the value's
  first byte) inside \<open>d\<close> open arrays and objects, and returns it with the input after
  it.  \<open>parseElems\<close> reads the elements of an array up to its closing bracket,
  \<open>parseMembers\<close> the members of an object up to its closing brace.  The scanner of
  encoding/json refuses more than \<open>maxNestingDepth\<close> open brackets.

  The tests \<open>length r < length s\<close> are there for the termination proof only; they hold
  at every call (lemma \<open>parse_consumes\<close> below).
\<close>

function parseValue :: "int \<Rightarrow> string \<Rightarrow> (json \<times> string) option"
  and parseElems :: "int \<Rightarrow> string \<Rightarrow> (json list \<times> string) option"
  and parseMembers :: "int \<Rightarrow> string \<Rightarrow> ((string \<times> json) list \<times> string) option"
where
  "parseValue d s =
     (case s of
        [] \<Rightarrow> None
      | c # cs \<Rightarrow>
          if c = CHR ''['' then
            (if maxNestingDepth \<le> d then None
             else
               (case skipSpace cs of
                  [] \<Rightarrow> None
                | c' # r \<Rightarrow>
                    if c' = CHR '']'' then Some (JArray (take (length s - length r) s) [], r)
                    else
                      (case parseElems (d + 1) (skipSpace cs) of
                         None \<Rightarrow> None
                       | Some (vs, rest) \<Rightarrow>
                           Some (JArray (take (length s - length rest) s) vs, rest))))
          else if c = CHR ''{'' then
            (if maxNestingDepth \<le> d then None
             else
               (case skipSpace cs of
                  [] \<Rightarrow> None
                | c' # r \<Rightarrow>
                    if c' = CHR ''}'' then Some (JObject (take (length s - length r) s) [], r)
                    else
                      (case parseMembers (d + 1) (skipSpace cs) of
                         None \<Rightarrow> None
                       | Some (ms, rest) \<Rightarrow>
                           Some (JObject (take (length s - length rest) s) ms, rest))))
          else if c = quote then
            (case scanString cs of
               None \<Rightarrow> None
             | Some (t, rest) \<Rightarrow> Some (JString t, rest))
          else if c = CHR ''t'' then
            (case scanWord ''rue'' cs of None \<Rightarrow> None | Some rest \<Rightarrow> Some (JBool True, rest))
          else if c = CHR ''f'' then
            (case scanWord ''alse'' cs of None \<Rightarrow> None | Some rest \<Rightarrow> Some (JBool False, rest))
          else if c = CHR ''n'' then
            (case scanWord ''ull'' cs of None \<Rightarrow> None | Some rest \<Rightarrow> Some (JNull, rest))
          else if c = CHR ''-'' \<or> isDigit c then
            (case scanNumber s of
               None \<Rightarrow> None
             | Some (lit, rest) \<Rightarrow> Some (JNumber lit, rest))
          else None)"
| "parseElems d s =
     (case parseValue d s of
        None \<Rightarrow> None
      | Some (v, rest) \<Rightarrow>
          (case skipSpace rest of
             [] \<Rightarrow> None
           | c # r \<Rightarrow>
               if c = CHR '','' then
                 (if length r < length s then
                    (case parseElems d (skipSpace r) of
                       None \<Rightarrow> None
                     | Some (vs, rest') \<Rightarrow> Some (v # vs, rest'))
                  else None)
               else if c = CHR '']'' then Some ([v], r)
               else None))"
| "parseMembers d s =
     (case s of
        [] \<Rightarrow> None
      | c # cs \<Rightarrow>
          if c = quote then
            (case scanString cs of
               None \<Rightarrow> None
             | Some (k, rest) \<Rightarrow>
                 (case skipSpace rest of
                    [] \<Rightarrow> None
                  | c1 # r1 \<Rightarrow>
                      if c1 = CHR '':'' \<and> length r1 < length s then
                        (case parseValue d (skipSpace r1) of
                           None \<Rightarrow> None
                         | Some (v, rest2) \<Rightarrow>
                             (case skipSpace rest2 of
                                [] \<Rightarrow> None
                              | c2 # r2 \<Rightarrow>
                                  if c2 = CHR '','' then
                                    (if length r2 < length s then
                                       (case parseMembers d (skipSpace r2) of
                                          None \<Rightarrow> None
                                        | Some (ms, rest') \<Rightarrow> Some ((k, v) # ms, rest'))
                                     else None)
                                  else if c2 = CHR ''}'' then Some ([(k, v)], r2)
                                  else None))
                      else None))
          else None)"
  by pat_completeness auto
termination
proof -
  have skip_le: "length (skipSpace s) \<le> length s" for s
    by (simp add: skipSpace_def length_dropWhile_le)
  have skip_cons: "skipSpace s = c # r \<Longrightarrow> Suc (length r) \<le> length s" for s c r
    using skip_le [of s] by simp
  show ?thesis
    apply (relation "measure (\<lambda>x. case x of
          Inl (d, s) \<Rightarrow> 2 * length s
        | Inr (Inl (d, s)) \<Rightarrow> 2 * length s + 1
        | Inr (Inr (d, s)) \<Rightarrow> 2 * length s + 1)")
          apply simp
    subgoal for d s c cs c' r using skip_cons [of cs c' r] by simp
    subgoal for d s c cs c' r using skip_cons [of cs c' r] by simp
    subgoal by simp
    subgoal for d s p v rest c r using skip_le [of r] by simp
    subgoal for d s c cs p k rest c1 r1 using skip_le [of r1] by simp
    subgoal for d s c cs p k rest c1 r1 p2 v rest2 c2 r2 using skip_le [of r2] by simp
    done
qed

declare parseValue.simps [simp del] parseElems.simps [simp del] parseMembers.simps [simp del]

text \<open>
  \<open>checkValid\<close> accepts exactly one value with white space around it.  \<open>parseJSON\<close>
  is that check together with the value it has read.
\<close>

definition parseJSON :: "string \<Rightarrow> json option" where
  "parseJSON s =
     (case parseValue 0 (skipSpace s) of
        None \<Rightarrow> None
      | Some (v, rest) \<Rightarrow> if skipSpace rest = [] then Some v else None)"

text \<open>The bytes of a value, as \<open>RawMessage.UnmarshalJSON\<close> receives them.\<close>

fun raw :: "json \<Rightarrow> string" where
  "raw JNull = ''null''"
| "raw (JBool b) = (if b then ''true'' else ''false'')"
| "raw (JNumber lit) = lit"
| "raw (JString t) = quote # t @ [quote]"
| "raw (JArray r vs) = r"
| "raw (JObject r ms) = r"

text \<open>The \<open>Value\<close> of an \<open>UnmarshalTypeError\<close> for a value of the wrong kind.\<close>

fun kindName :: "json \<Rightarrow> string" where
  "kindName JNull = ''null''"
| "kindName (JBool b) = ''bool''"
| "kindName (JNumber lit) = ''number''"
| "kindName (JString t) = ''string''"
| "kindName (JArray r vs) = ''array''"
| "kindName (JObject r ms) = ''object''"

subsection \<open>Strings: \<open>unquoteBytes\<close>\<close>

definition runeError :: int where
  "runeError = 0xFFFD"

definition hexValue :: "char \<Rightarrow> int" where
  "hexValue c =
     (if isDigit c then byte c - 48
      else if 97 \<le> byte c then byte c - 87
      else byte c - 55)"

definition getu4 :: "string \<Rightarrow> int option" where
  "getu4 s =
     (case s of
        b # u # h1 # h2 # h3 # h4 # r \<Rightarrow>
          if b = backslash \<and> u = CHR ''u'' \<and> isHex h1 \<and> isHex h2 \<and> isHex h3 \<and> isHex h4 then
            Some (((hexValue h1 * 16 + hexValue h2) * 16 + hexValue h3) * 16 + hexValue h4)
          else None
      | _ \<Rightarrow> None)"

text \<open>\<open>utf8.EncodeRune\<close>: surrogates and values past U+10FFFF become U+FFFD.\<close>

definition encodeRune :: "int \<Rightarrow> string" where
  "encodeRune r =
     (if r < 0x80 then [char_of r]
      else if r < 0x800 then [char_of (0xC0 + r div 64), char_of (0x80 + r mod 64)]
      else if (0xD800 \<le> r \<and> r < 0xE000) \<or> 0x10FFFF < r then [CHR 0xEF, CHR 0xBF, CHR 0xBD]
      else if r < 0x10000 then
        [char_of (0xE0 + r div 4096), char_of (0x80 + (r div 64) mod 64), char_of (0x80 + r mod 64)]
      else
        [char_of (0xF0 + r div 262144), char_of (0x80 + (r div 4096) mod 64),
         char_of (0x80 + (r div 64) mod 64), char_of (0x80 + r mod 64)])"

definition inRange :: "int \<Rightarrow> int \<Rightarrow> char \<Rightarrow> bool" where
  "inRange lo hi c = (lo \<le> byte c \<and> byte c \<le> hi)"

text \<open>
  \<open>utf8.DecodeRune\<close> on a first byte \<open>c\<close> above 0x7F and the bytes \<open>cs\<close> after it: the
  rune, and how many of \<open>cs\<close> belong to it.  An ill-formed sequence decodes to U+FFFD
  and takes the first byte only.
\<close>

definition decodeRune :: "char \<Rightarrow> string \<Rightarrow> int \<times> nat" where
  "decodeRune c cs =
     (let x = byte c in
      if 0xC2 \<le> x \<and> x \<le> 0xDF then
        (case cs of
           b1 # r \<Rightarrow>
             if inRange 0x80 0xBF b1 then ((x mod 32) * 64 + byte b1 mod 64, 1)
             else (runeError, 0)
         | _ \<Rightarrow> (runeError, 0))
      else if 0xE0 \<le> x \<and> x \<le> 0xEF then
        (case cs of
           b1 # b2 # r \<Rightarrow>
             if inRange (if x = 0xE0 then 0xA0 else 0x80) (if x = 0xED then 0x9F else 0xBF) b1
                \<and> inRange 0x80 0xBF b2
             then (((x mod 16) * 64 + byte b1 mod 64) * 64 + byte b2 mod 64, 2)
             else (runeError, 0)
         | _ \<Rightarrow> (runeError, 0))
      else if 0xF0 \<le> x \<and> x \<le> 0xF4 then
        (case cs of
           b1 # b2 # b3 # r \<Rightarrow>
             if inRange (if x = 0xF0 then 0x90 else 0x80) (if x = 0xF4 then 0x8F else 0xBF) b1
                \<and> inRange 0x80 0xBF b2 \<and> inRange 0x80 0xBF b3
             then ((((x mod 8) * 64 + byte b1 mod 64) * 64 + byte b2 mod 64) * 64 + byte b3 mod 64, 3)
             else (runeError, 0)
         | _ \<Rightarrow> (runeError, 0))
      else (runeError, 0))"

definition escapeChar :: "char \<Rightarrow> char" where
  "escapeChar e =
     (if e = CHR ''b'' then CHR 0x08
      else if e = CHR ''f'' then CHR 0x0C
      else if e = CHR ''n'' then CHR 0x0A
      else if e = CHR ''r'' then CHR 0x0D
      else if e = CHR ''t'' then CHR 0x09
      else e)"

text \<open>
  \<open>unquote t\<close> is the Go string denoted by the text \<open>t\<close> of a string literal: escapes
  are replaced, a \<open>\u\<close> escape by the UTF-8 encoding of its rune (a surrogate pair
  by one rune, a lone surrogate by U+FFFD), and ill-formed UTF-8 by U+FFFD.  The
  decoder only calls it on text that \<open>scanString\<close> has accepted, where every backslash
  starts a well-formed escape; on other text \<open>unquoteBytes\<close> gives up, and this
  function stops.
\<close>

function unquote :: "string \<Rightarrow> string" where
  "unquote s =
     (case s of
        [] \<Rightarrow> []
      | c # cs \<Rightarrow>
          if c = backslash then
            (case cs of
               [] \<Rightarrow> []
             | e # es \<Rightarrow>
                 if e = CHR ''u'' then
                   (case getu4 s of
                      None \<Rightarrow> []
                    | Some rr \<Rightarrow>
                        if 0xD800 \<le> rr \<and> rr < 0xE000 then
                          (case getu4 (drop 4 es) of
                             None \<Rightarrow> encodeRune runeError @ unquote (drop 4 es)
                           | Some rr1 \<Rightarrow>
                               if rr < 0xDC00 \<and> 0xDC00 \<le> rr1 \<and> rr1 < 0xE000 then
                                 encodeRune ((rr - 0xD800) * 1024 + (rr1 - 0xDC00) + 0x10000)
                                   @ unquote (drop 10 es)
                               else encodeRune runeError @ unquote (drop 4 es))
                        else encodeRune rr @ unquote (drop 4 es))
                 else if isSimpleEscape e then escapeChar e # unquote es
                 else [])
          else if c = quote \<or> byte c < 32 then []
          else if byte c < 0x80 then c # unquote cs
          else
            (case decodeRune c cs of
               (rr, n) \<Rightarrow> encodeRune rr @ unquote (drop n cs)))"
  by pat_completeness auto
termination
  by (relation "measure length") (auto simp: le_imp_less_Suc)

declare unquote.simps [simp del]

subsection \<open>Field names\<close>

text \<open>
  A key of an object selects the struct field whose name it equals, or else the field
  whose name it equals under Unicode simple case folding (\<open>foldName\<close>).  The field names
  of this package are ASCII.  Two runes outside ASCII fold to an ASCII letter: U+017F
  (long s) to S, U+212A (Kelvin sign) to K.  Every other rune outside ASCII folds to a
  rune outside ASCII; \<open>foldName\<close> leaves it as it is, which does not change the
  comparison with an ASCII name.
\<close>

function foldName :: "string \<Rightarrow> string" where
  "foldName s =
     (case s of
        [] \<Rightarrow> []
      | c # cs \<Rightarrow>
          if inRange 97 122 c then char_of (byte c - 32) # foldName cs
          else if c = CHR 0xC5 \<and> take 1 cs = [CHR 0xBF] then CHR ''S'' # foldName (drop 1 cs)
          else if c = CHR 0xE2 \<and> take 2 cs = [CHR 0x84, CHR 0xAA] then CHR ''K'' # foldName (drop 2 cs)
          else c # foldName cs)"
  by pat_completeness auto
termination
  by (relation "measure length") (auto simp: le_imp_less_Suc)

declare foldName.simps [simp del]

definition matchField :: "string \<Rightarrow> string \<Rightarrow> bool" where
  "matchField key name = (foldName key = foldName name)"

subsection \<open>Numbers\<close>

text \<open>
  An \<open>int\<close> field takes a number that \<open>strconv.ParseInt(s, 10, 64)\<close> reads: digits
  only after the sign, and a value of 64 bits.
\<close>

definition parseInt :: "string \<Rightarrow> int option" where
  "parseInt lit =
     (let neg = (take 1 lit = ''-'');
          ds = (if neg then drop 1 lit else lit);
          n = digitsValue ds;
          v = (if neg then - n else n)
      in if ds \<noteq> [] \<and> list_all isDigit ds \<and> - (2 ^ 63) \<le> v \<and> v < 2 ^ 63 then Some v else None)"

text \<open>
  An \<open>interface{}\<close> takes a number as a \<open>float64\<close>, read by \<open>strconv.ParseFloat\<close>,
  which fails when the value rounds to an infinity: when its magnitude is at least
  \<open>2^1024 - 2^970\<close>, half a unit in the last place above the largest \<open>float64\<close>.
  The literal is \<open>m * 10^e\<close> for the digits \<open>m\<close> of its integer and fraction parts.
\<close>

definition numberExponent :: "string \<Rightarrow> int" where
  "numberExponent s =
     (case s of
        [] \<Rightarrow> 0
      | e # r \<Rightarrow>
          if take 1 r = ''-'' then - digitsValue (drop 1 r)
          else if take 1 r = ''+'' then digitsValue (drop 1 r)
          else digitsValue r)"

definition float64Overflows :: "string \<Rightarrow> bool" where
  "float64Overflows lit =
     (let s1 = (if take 1 lit = ''-'' then drop 1 lit else lit);
          ip = takeWhile isDigit s1;
          r1 = dropWhile isDigit s1;
          fp = (if take 1 r1 = ''.'' then takeWhile isDigit (drop 1 r1) else []);
          r2 = (if take 1 r1 = ''.'' then dropWhile isDigit (drop 1 r1) else r1);
          m = digitsValue (ip @ fp);
          e = numberExponent r2 - int (length fp);
          limit = (2 :: int) ^ 1024 - 2 ^ 970
      in if 0 \<le> e then limit \<le> m * 10 ^ nat e else limit * 10 ^ nat (- e) \<le> m)"

primrec firstSome :: "'a option list \<Rightarrow> 'a option" where
  "firstSome [] = None"
| "firstSome (x # xs) = (case x of None \<Rightarrow> firstSome xs | Some y \<Rightarrow> Some y)"

text \<open>
  The first number, in the order of the text, that an \<open>interface{}\<close> cannot take.
\<close>

fun convertError :: "json \<Rightarrow> string option" where
  "convertError (JNumber lit) = (if float64Overflows lit then Some lit else None)"
| "convertError (JArray r vs) = firstSome (map convertError vs)"
| "convertError (JObject r ms) = firstSome (map (\<lambda>m. convertError (snd m)) ms)"
| "convertError v = None"

subsection \<open>Decoding into a struct\<close>

text \<open>
  The decoder goes through the members of an object in the order of the text and stores
  each value in the field its key selects; a key that selects no field is skipped, and
  a later member overwrites an earlier one.  A value of the wrong kind leaves the field
  as it is and is recorded as an \<open>UnmarshalTypeError\<close>; decoding goes on, and
  \<open>Unmarshal\<close> returns the first error recorded (\<open>saveError\<close>).  The JSON value
  \<open>null\<close> is stored in no \<open>string\<close>, \<open>int\<close> or struct.

  The state of a decoding is the struct being filled and the error recorded so far.
\<close>

definition saveError :: "json_error \<Rightarrow> 'a \<times> json_error option \<Rightarrow> 'a \<times> json_error option" where
  "saveError e st = (case snd st of None \<Rightarrow> (fst st, Some e) | Some e' \<Rightarrow> st)"

text \<open>A \<open>json.RawMessage\<close> field takes the bytes of any value, \<open>null\<close> included.\<close>

definition storeRaw ::
  "(string \<Rightarrow> 'a \<Rightarrow> 'a) \<Rightarrow> json \<Rightarrow> 'a \<times> json_error option \<Rightarrow> 'a \<times> json_error option" where
  "storeRaw upd v st = (upd (raw v) (fst st), snd st)"

definition storeString ::
  "(string \<Rightarrow> 'a \<Rightarrow> 'a) \<Rightarrow> json \<Rightarrow> 'a \<times> json_error option \<Rightarrow> 'a \<times> json_error option" where
  "storeString upd v st =
     (case v of
        JString t \<Rightarrow> (upd (unquote t) (fst st), snd st)
      | JNull \<Rightarrow> st
      | _ \<Rightarrow> saveError (UnmarshalTypeError (kindName v)) st)"

definition storeInt ::
  "(int \<Rightarrow> 'a \<Rightarrow> 'a) \<Rightarrow> json \<Rightarrow> 'a \<times> json_error option \<Rightarrow> 'a \<times> json_error option" where
  "storeInt upd v st =
     (case v of
        JNumber lit \<Rightarrow>
          (case parseInt lit of
             Some n \<Rightarrow> (upd n (fst st), snd st)
           | None \<Rightarrow> saveError (UnmarshalTypeError (''number '' @ lit)) st)
      | JNull \<Rightarrow> st
      | _ \<Rightarrow> saveError (UnmarshalTypeError (kindName v)) st)"

text \<open>
  A \<open>[]interface{}\<close> field takes an array, whatever its elements, and is set to nil
  by \<open>null\<close>.  The model keeps the elements as parsed.
\<close>

definition storeInterfaces ::
  "(json list \<Rightarrow> 'a \<Rightarrow> 'a) \<Rightarrow> json \<Rightarrow> 'a \<times> json_error option \<Rightarrow> 'a \<times> json_error option" where
  "storeInterfaces upd v st =
     (case v of
        JArray r vs \<Rightarrow>
          (case convertError v of
             None \<Rightarrow> (upd vs (fst st), snd st)
           | Some lit \<Rightarrow> saveError (UnmarshalTypeError (''number '' @ lit)) (upd vs (fst st), snd st))
      | JNull \<Rightarrow> (upd [] (fst st), snd st)
      | _ \<Rightarrow> saveError (UnmarshalTypeError (kindName v)) st)"

text \<open>
  \<open>unmarshalStruct field data v\<close> is \<open>json.Unmarshal(data, &v)\<close> for a struct \<open>v\<close>
  whose fields are stored by \<open>field\<close>: the struct after the call, and the error
  returned.  Input that is not one JSON value is a \<open>SyntaxError\<close> and leaves \<open>v\<close>
  untouched.
\<close>

definition unmarshalStruct ::
  "(string \<Rightarrow> json \<Rightarrow> 'a \<times> json_error option \<Rightarrow> 'a \<times> json_error option)
     \<Rightarrow> string \<Rightarrow> 'a \<Rightarrow> 'a \<times> json_error option" where
  "unmarshalStruct field data v =
     (case parseJSON data of
        None \<Rightarrow> (v, Some SyntaxError)
      | Some j \<Rightarrow>
          (case j of
             JObject r ms \<Rightarrow> foldl (\<lambda>st m. field (unquote (fst m)) (snd m) st) (v, None) ms
           | JNull \<Rightarrow> (v, None)
           | _ \<Rightarrow> (v, Some (UnmarshalTypeError (kindName j)))))"

section \<open>The fragment of fmt that the package calls\<close>

text \<open>The verb \<open>%d\<close> on an \<open>int\<close>: decimal digits, with a minus sign below zero.\<close>

fun decimal :: "nat \<Rightarrow> string" where
  "decimal n = (if n < 10 then [char_of (48 + n)] else decimal (n div 10) @ [char_of (48 + n mod 10)])"

declare decimal.simps [simp del]

definition formatInt :: "int \<Rightarrow> string" where
  "formatInt i = (if i < 0 then CHR ''-'' # decimal (nat (- i)) else decimal (nat i))"

section \<open>zarinpalgo.go\<close>

subsection \<open>Types\<close>

record http_Client =
  Timeout :: int

record Zarinpal =
  MerchantID :: string
  APIBaseURL :: string
  PaymentBaseURL :: string
  client :: http_Client

record PaymentStatus =
  IsSuccessful :: bool
  IsRepeated :: bool
  RefID :: int
  Message :: string

record Metadata =
  Email :: string
  Mobile :: string
  OrderID :: string

record Wage =
  Iban :: string
  Amount :: int
  Description :: string

record PaymentRequest =
  MerchantID :: string
  Amount :: int
  Description :: string
  Metadata :: "Metadata option"
  CallbackURL :: string
  Wages :: "Wage list"

record PaymentVerificationRequest =
  MerchantID :: string
  Amount :: int
  Authority :: string

record PaymentCreationResponse =
  Code :: int
  Message :: string
  Authority :: string
  FeeType :: string
  Fee :: int

record PaymentVerificationResponse =
  Code :: int
  Message :: string
  CardHash :: string
  CardPan :: string
  RefID :: int
  FeeType :: string
  Fee :: int

record BaseResponse =
  Data :: string
  Errors :: string

record ErrorResponse =
  Message :: string
  Code :: int
  Validations :: "json list"

text \<open>
  A Go \<open>error\<close> of this package is an error of encoding/json, the value that
  \<open>fmt.Errorf\<close> builds from its text, or an error of the HTTP transport or of
  \<open>json.Marshal\<close>, of which the model keeps the text.
\<close>

datatype error =
    JSONError json_error
  | Errorf string
  | OtherError string

definition PaymentCodeSuccess :: int where
  "PaymentCodeSuccess = 100"

definition PaymentCodeAlreadyVerified :: int where
  "PaymentCodeAlreadyVerified = 101"

text \<open>The zero values that \<open>var x T\<close> and named results start from.\<close>

definition zeroBaseResponse :: BaseResponse where
  "zeroBaseResponse = \<lparr>Data = [], Errors = []\<rparr>"

definition zeroErrorResponse :: ErrorResponse where
  "zeroErrorResponse = \<lparr>ErrorResponse.Message = [], ErrorResponse.Code = 0, Validations = []\<rparr>"

definition zeroPaymentCreationResponse :: PaymentCreationResponse where
  "zeroPaymentCreationResponse =
     \<lparr>PaymentCreationResponse.Code = 0, PaymentCreationResponse.Message = [],
      PaymentCreationResponse.Authority = [], PaymentCreationResponse.FeeType = [],
      PaymentCreationResponse.Fee = 0\<rparr>"

definition zeroPaymentVerificationResponse :: PaymentVerificationResponse where
  "zeroPaymentVerificationResponse =
     \<lparr>PaymentVerificationResponse.Code = 0, PaymentVerificationResponse.Message = [],
      CardHash = [], CardPan = [], PaymentVerificationResponse.RefID = 0,
      PaymentVerificationResponse.FeeType = [], PaymentVerificationResponse.Fee = 0\<rparr>"

subsection \<open>\<open>json.Unmarshal\<close> at the struct types of the package\<close>

text \<open>The field of each struct that a key selects, by the \<open>json\<close> tags of the struct.\<close>

definition fieldBaseResponse ::
  "string \<Rightarrow> json \<Rightarrow> BaseResponse \<times> json_error option \<Rightarrow> BaseResponse \<times> json_error option" where
  "fieldBaseResponse key v st =
     (if matchField key ''data'' then storeRaw (\<lambda>x s. s\<lparr>Data := x\<rparr>) v st
      else if matchField key ''errors'' then storeRaw (\<lambda>x s. s\<lparr>Errors := x\<rparr>) v st
      else st)"

definition fieldErrorResponse ::
  "string \<Rightarrow> json \<Rightarrow> ErrorResponse \<times> json_error option \<Rightarrow> ErrorResponse \<times> json_error option" where
  "fieldErrorResponse key v st =
     (if matchField key ''message'' then storeString (\<lambda>x s. s\<lparr>ErrorResponse.Message := x\<rparr>) v st
      else if matchField key ''code'' then storeInt (\<lambda>x s. s\<lparr>ErrorResponse.Code := x\<rparr>) v st
      else if matchField key ''validations'' then storeInterfaces (\<lambda>x s. s\<lparr>Validations := x\<rparr>) v st
      else st)"

definition fieldPaymentCreationResponse ::
  "string \<Rightarrow> json \<Rightarrow> PaymentCreationResponse \<times> json_error option
     \<Rightarrow> PaymentCreationResponse \<times> json_error option" where
  "fieldPaymentCreationResponse key v st =
     (if matchField key ''code'' then storeInt (\<lambda>x s. s\<lparr>PaymentCreationResponse.Code := x\<rparr>) v st
      else if matchField key ''message'' then
        storeString (\<lambda>x s. s\<lparr>PaymentCreationResponse.Message := x\<rparr>) v st
      else if matchField key ''authority'' then
        storeString (\<lambda>x s. s\<lparr>PaymentCreationResponse.Authority := x\<rparr>) v st
      else if matchField key ''fee_type'' then
        storeString (\<lambda>x s. s\<lparr>PaymentCreationResponse.FeeType := x\<rparr>) v st
      else if matchField key ''fee'' then storeInt (\<lambda>x s. s\<lparr>PaymentCreationResponse.Fee := x\<rparr>) v st
      else st)"

definition fieldPaymentVerificationResponse ::
  "string \<Rightarrow> json \<Rightarrow> PaymentVerificationResponse \<times> json_error option
     \<Rightarrow> PaymentVerificationResponse \<times> json_error option" where
  "fieldPaymentVerificationResponse key v st =
     (if matchField key ''code'' then
        storeInt (\<lambda>x s. s\<lparr>PaymentVerificationResponse.Code := x\<rparr>) v st
      else if matchField key ''message'' then
        storeString (\<lambda>x s. s\<lparr>PaymentVerificationResponse.Message := x\<rparr>) v st
      else if matchField key ''card_hash'' then storeString (\<lambda>x s. s\<lparr>CardHash := x\<rparr>) v st
      else if matchField key ''card_pan'' then storeString (\<lambda>x s. s\<lparr>CardPan := x\<rparr>) v st
      else if matchField key ''ref_id'' then
        storeInt (\<lambda>x s. s\<lparr>PaymentVerificationResponse.RefID := x\<rparr>) v st
      else if matchField key ''fee_type'' then
        storeString (\<lambda>x s. s\<lparr>PaymentVerificationResponse.FeeType := x\<rparr>) v st
      else if matchField key ''fee'' then
        storeInt (\<lambda>x s. s\<lparr>PaymentVerificationResponse.Fee := x\<rparr>) v st
      else st)"

definition UnmarshalBaseResponse :: "string \<Rightarrow> BaseResponse \<Rightarrow> BaseResponse \<times> json_error option" where
  "UnmarshalBaseResponse = unmarshalStruct fieldBaseResponse"

definition UnmarshalErrorResponse :: "string \<Rightarrow> ErrorResponse \<Rightarrow> ErrorResponse \<times> json_error option" where
  "UnmarshalErrorResponse = unmarshalStruct fieldErrorResponse"

definition UnmarshalPaymentCreationResponse ::
  "string \<Rightarrow> PaymentCreationResponse \<Rightarrow> PaymentCreationResponse \<times> json_error option" where
  "UnmarshalPaymentCreationResponse = unmarshalStruct fieldPaymentCreationResponse"

definition UnmarshalPaymentVerificationResponse ::
  "string \<Rightarrow> PaymentVerificationResponse \<Rightarrow> PaymentVerificationResponse \<times> json_error option" where
  "UnmarshalPaymentVerificationResponse = unmarshalStruct fieldPaymentVerificationResponse"

subsection \<open>The world outside the package\<close>

text \<open>
  The methods of the client read the struct behind their pointer receiver and talk to
  the gateway.  A state of the model is that struct together with a state \<open>'w\<close> of
  everything behind the HTTP transport; every method returns the state it leaves.

  What the package gets from other libraries is a parameter of the model:
  \<^item> \<open>Marshal\<close> is \<open>json.Marshal\<close> on the two request structs;
  \<^item> \<open>roundTrip\<close> stands for \<open>http.NewRequestWithContext\<close>, \<open>Header.Add\<close>,
    \<open>client.Do\<close> and \<open>io.ReadAll\<close> (with the deferred \<open>Body.Close\<close>), which the
    package calls in a row and whose errors it returns as they are: from the client,
    the context, the method, the URL, the header and the body of the request, it gives
    the body of the response or the error of the call that failed, and the next state
    of the world;
  \<^item> \<open>ErrorText\<close> is the method \<open>Error()\<close> of the errors of encoding/json.
\<close>

datatype payload =
    PaymentRequestPayload PaymentRequest
  | PaymentVerificationRequestPayload PaymentVerificationRequest

record ('ctx, 'w) runtime =
  Marshal :: "payload \<Rightarrow> error + string"
  roundTrip :: "http_Client \<Rightarrow> 'ctx \<Rightarrow> string \<Rightarrow> string \<Rightarrow> (string \<times> string) list \<Rightarrow> string
                 \<Rightarrow> 'w \<Rightarrow> (error + string) \<times> 'w"
  ErrorText :: "json_error \<Rightarrow> string"

definition Error :: "('ctx, 'w) runtime \<Rightarrow> error \<Rightarrow> string" where
  "Error rt e = (case e of JSONError j \<Rightarrow> ErrorText rt j | Errorf s \<Rightarrow> s | OtherError s \<Rightarrow> s)"

definition Second :: int where
  "Second = 1000000000"

subsection \<open>Functions\<close>

definition NewWithMode :: "string \<Rightarrow> bool \<Rightarrow> Zarinpal" where
  "NewWithMode merchantID sandbox =
     (let baseURL = (if sandbox then ''https://sandbox.zarinpal.com'' else ''https://payment.zarinpal.com'')
      in \<lparr>Zarinpal.MerchantID = merchantID,
          APIBaseURL = baseURL @ ''/pg/v4/payment/'',
          PaymentBaseURL = baseURL @ ''/pg/StartPay/'',
          client = \<lparr>Timeout = 30 * Second\<rparr>\<rparr>)"

definition New :: "string \<Rightarrow> Zarinpal" where
  "New merchantID = NewWithMode merchantID False"

text \<open>
  \<open>checkResponse\<close> returns the pair of its named results \<open>rawMessage\<close> and \<open>err\<close>;
  \<open>rawMessage\<close> is nil (the empty string of bytes) on every path but the last.
\<close>

definition checkResponse :: "string \<Rightarrow> string \<times> error option" where
  "checkResponse body =
     (case UnmarshalBaseResponse body zeroBaseResponse of
        (baseResponse, Some e) \<Rightarrow> ([], Some (JSONError e))
      | (baseResponse, None) \<Rightarrow>
          (let isEmptyErrors =
                 (Errors baseResponse = ''[]'' \<or> Errors baseResponse = ''{}''
                    \<or> Errors baseResponse = '''')
           in if \<not> isEmptyErrors then
                (case UnmarshalErrorResponse (Errors baseResponse) zeroErrorResponse of
                   (errorResponse, Some e) \<Rightarrow> ([], Some (JSONError e))
                 | (errorResponse, None) \<Rightarrow>
                     ([], Some (Errorf (''error code: '' @ formatInt (ErrorResponse.Code errorResponse)
                                         @ '', error: '' @ ErrorResponse.Message errorResponse))))
              else (Data baseResponse, None)))"

definition NewPayment ::
  "('ctx, 'w) runtime \<Rightarrow> 'ctx \<Rightarrow> int \<Rightarrow> string \<Rightarrow> Metadata option \<Rightarrow> string \<Rightarrow> Wage list
     \<Rightarrow> Zarinpal \<times> 'w \<Rightarrow> (PaymentCreationResponse \<times> error option) \<times> (Zarinpal \<times> 'w)" where
  "NewPayment rt ctx amount description metadata callbackURL wages st =
     (case st of (z, w) \<Rightarrow>
        (let paymentRequestBody =
               \<lparr>PaymentRequest.MerchantID = Zarinpal.MerchantID z,
                PaymentRequest.Amount = amount,
                PaymentRequest.Description = description,
                Metadata = metadata,
                CallbackURL = callbackURL,
                Wages = wages\<rparr>
         in case Marshal rt (PaymentRequestPayload paymentRequestBody) of
              Inl e \<Rightarrow> ((zeroPaymentCreationResponse, Some e), (z, w))
            | Inr marshalled \<Rightarrow>
                (case roundTrip rt (client z) ctx ''POST'' (APIBaseURL z @ ''request.json'')
                        [(''Content-Type'', ''application/json'')] marshalled w of
                   (Inl e, w') \<Rightarrow> ((zeroPaymentCreationResponse, Some e), (z, w'))
                 | (Inr bodyBytes, w') \<Rightarrow>
                     (case checkResponse bodyBytes of
                        (rawMessage, Some e) \<Rightarrow> ((zeroPaymentCreationResponse, Some e), (z, w'))
                      | (rawMessage, None) \<Rightarrow>
                          (case UnmarshalPaymentCreationResponse rawMessage zeroPaymentCreationResponse of
                             (paymentCreationResponse, e) \<Rightarrow>
                               ((paymentCreationResponse, map_option JSONError e), (z, w')))))))"

definition VerifyPayment ::
  "('ctx, 'w) runtime \<Rightarrow> 'ctx \<Rightarrow> int \<Rightarrow> string
     \<Rightarrow> Zarinpal \<times> 'w \<Rightarrow> (PaymentVerificationResponse \<times> error option) \<times> (Zarinpal \<times> 'w)" where
  "VerifyPayment rt ctx amount authority st =
     (case st of (z, w) \<Rightarrow>
        (let paymentVerificationRequestBody =
               \<lparr>PaymentVerificationRequest.MerchantID = Zarinpal.MerchantID z,
                PaymentVerificationRequest.Amount = amount,
                PaymentVerificationRequest.Authority = authority\<rparr>
         in case Marshal rt (PaymentVerificationRequestPayload paymentVerificationRequestBody) of
              Inl e \<Rightarrow> ((zeroPaymentVerificationResponse, Some e), (z, w))
            | Inr marshalled \<Rightarrow>
                (case roundTrip rt (client z) ctx ''POST'' (APIBaseURL z @ ''verify.json'')
                        [(''Content-Type'', ''application/json'')] marshalled w of
                   (Inl e, w') \<Rightarrow> ((zeroPaymentVerificationResponse, Some e), (z, w'))
                 | (Inr bodyBytes, w') \<Rightarrow>
                     (case checkResponse bodyBytes of
                        (rawMessage, Some e) \<Rightarrow> ((zeroPaymentVerificationResponse, Some e), (z, w'))
                      | (rawMessage, None) \<Rightarrow>
                          (case UnmarshalPaymentVerificationResponse rawMessage
                                  zeroPaymentVerificationResponse of
                             (paymentVerificationResponse, e) \<Rightarrow>
                               ((paymentVerificationResponse, map_option JSONError e), (z, w')))))))"

definition CheckPaymentStatus ::
  "('ctx, 'w) runtime \<Rightarrow> 'ctx \<Rightarrow> int \<Rightarrow> string
     \<Rightarrow> Zarinpal \<times> 'w \<Rightarrow> (PaymentStatus \<times> error option) \<times> (Zarinpal \<times> 'w)" where
  "CheckPaymentStatus rt ctx amount authority st =
     (case VerifyPayment rt ctx amount authority st of
        ((verification, Some err), st') \<Rightarrow>
          ((\<lparr>IsSuccessful = False, IsRepeated = False, PaymentStatus.RefID = 0,
             PaymentStatus.Message = Error rt err\<rparr>, Some err), st')
      | ((verification, None), st') \<Rightarrow>
          (let status =
                 \<lparr>IsSuccessful = False, IsRepeated = False,
                  PaymentStatus.RefID = PaymentVerificationResponse.RefID verification,
                  PaymentStatus.Message = PaymentVerificationResponse.Message verification\<rparr>;
               status =
                 (if PaymentVerificationResponse.Code verification = PaymentCodeSuccess then
                    status\<lparr>IsSuccessful := True, IsRepeated := False\<rparr>
                  else if PaymentVerificationResponse.Code verification = PaymentCodeAlreadyVerified then
                    status\<lparr>IsSuccessful := True, IsRepeated := True\<rparr>
                  else status\<lparr>IsSuccessful := False, IsRepeated := False\<rparr>)
           in ((status, None), st')))"

definition GetPaymentURL :: "string \<Rightarrow> Zarinpal \<times> 'w \<Rightarrow> string \<times> (Zarinpal \<times> 'w)" where
  "GetPaymentURL authority st = (case st of (z, w) \<Rightarrow> (PaymentBaseURL z @ authority, (z, w)))"

subsection \<open>The envelope and the error report as JSON values\<close>

text \<open>
  What the decoder leaves in a struct, read off the members of the object it decodes.
  A member \<open>selects\<close> a field when its key, unquoted, matches the name of the field.
  The \<open>region\<close> of a \<open>json.RawMessage\<close> field is the bytes of the last member that
  selects it, and no bytes when there is none.  In a \<open>string\<close> or \<open>int\<close> field the
  value \<open>stored\<close> is that of the last member that selects it and is not \<open>null\<close>.
\<close>

definition selects :: "string \<Rightarrow> string \<times> json \<Rightarrow> bool" where
  "selects name m = matchField (unquote (fst m)) name"

definition region :: "string \<Rightarrow> (string \<times> json) list \<Rightarrow> string" where
  "region name ms =
     (case rev (filter (selects name) ms) of
        [] \<Rightarrow> []
      | m # ms' \<Rightarrow> raw (snd m))"

definition stored :: "string \<Rightarrow> (string \<times> json) list \<Rightarrow> json option" where
  "stored name ms =
     (case rev (filter (\<lambda>m. selects name m \<and> snd m \<noteq> JNull) ms) of
        [] \<Rightarrow> None
      | m # ms' \<Rightarrow> Some (snd m))"

definition decodedMessage :: "(string \<times> json) list \<Rightarrow> string" where
  "decodedMessage ms = (case stored ''message'' ms of Some (JString t) \<Rightarrow> unquote t | _ \<Rightarrow> [])"

definition decodedCode :: "(string \<times> json) list \<Rightarrow> int" where
  "decodedCode ms =
     (case stored ''code'' ms of
        Some (JNumber lit) \<Rightarrow> (case parseInt lit of Some n \<Rightarrow> n | None \<Rightarrow> 0)
      | _ \<Rightarrow> 0)"

subsection \<open>Two gateways to run the methods against\<close>

text \<open>
  \<open>fixedGateway reply\<close> answers every request with the body \<open>reply\<close>;
  \<open>unreachableGateway\<close> refuses every connection.  Both record the URL of each
  request in the world, and encode every request as an empty object.
\<close>

definition sampleErrorText :: "json_error \<Rightarrow> string" where
  "sampleErrorText e =
     (case e of
        SyntaxError \<Rightarrow> ''json: syntax error''
      | UnmarshalTypeError v \<Rightarrow> ''json: cannot unmarshal '' @ v)"

definition fixedGateway :: "string \<Rightarrow> (unit, string list) runtime" where
  "fixedGateway reply =
     \<lparr>Marshal = (\<lambda>p. Inr ''{}''),
      roundTrip = (\<lambda>c ctx method url header body w. (Inr reply, w @ [url])),
      ErrorText = sampleErrorText\<rparr>"

definition unreachableGateway :: "(unit, string list) runtime" where
  "unreachableGateway =
     \<lparr>Marshal = (\<lambda>p. Inr ''{}''),
      roundTrip = (\<lambda>c ctx method url header body w. (Inl (OtherError ''connection refused''), w @ [url])),
      ErrorText = sampleErrorText\<rparr>"

section \<open>The JSON reader consumes its input\<close>

text \<open>
  Every scanner returns a proper suffix of its input, so the length tests in
  \<open>parseElems\<close> and \<open>parseMembers\<close> never fail: both functions satisfy their
  equations without the tests.
\<close>

lemma scanString_shorter: "scanString s = Some (t, rest) \<Longrightarrow> length rest < length s"
proof (induction s arbitrary: t rest rule: scanString.induct)
  case 1
  then show ?case by simp
next
  case (2 c cs)
  from "2.prems" "2.IH" show ?case
    by (fastforce split: if_splits list.splits option.splits prod.splits)
qed

lemma scanInt_shorter: "scanInt s = Some r \<Longrightarrow> length r < length s"
  using length_dropWhile_le [of isDigit "tl s"]
  by (auto simp: scanInt_def split: list.splits if_splits)

lemma scanFrac_shorter: "scanFrac s = Some r \<Longrightarrow> length r \<le> length s"
  by (auto simp: scanFrac_def le_Suc_eq length_dropWhile_le intro: le_trans [OF length_dropWhile_le] split: list.splits if_splits)

lemma scanExp_shorter: "scanExp s = Some r \<Longrightarrow> length r \<le> length s"
  by (auto simp: scanExp_def Let_def  le_Suc_eq length_dropWhile_le intro: le_trans [OF length_dropWhile_le] split: list.splits if_splits)

lemma scanNumber_shorter: "scanNumber s = Some (lit, rest) \<Longrightarrow> length rest < length s"
  by (fastforce simp: scanNumber_def Let_def split: list.splits if_splits option.splits
      dest: scanInt_shorter scanFrac_shorter scanExp_shorter)

lemma scanWord_shorter: "scanWord w s = Some r \<Longrightarrow> length r \<le> length s"
  by (auto simp: scanWord_def split: if_splits)

lemma skipSpace_le: "length (skipSpace s) \<le> length s"
  by (simp add: skipSpace_def length_dropWhile_le)

lemma skipSpace_Cons: "skipSpace s = c # r \<Longrightarrow> length r < length s"
  using skipSpace_le [of s] by simp




lemma parse_consumes:
  shows "parseValue d s = Some (v, rest) \<Longrightarrow> length rest < length s"
    and "parseElems d s = Some (vs, rest1) \<Longrightarrow> length rest1 < length s"
    and "parseMembers d s = Some (ms, rest2) \<Longrightarrow> length rest2 < length s"
proof (induction d s and d s and d s arbitrary: v rest and vs rest1 and ms rest2
       rule: parseValue_parseElems_parseMembers.induct)
  case (1 d s)
  show ?case
  proof (cases s)
    case Nil
    with "1.prems" show ?thesis by (simp add: parseValue.simps [of d "[]"])
  next
    case (Cons c cs)
    note skip = skipSpace_le [of cs]
    note unfold = parseValue.simps [of d "x # cs" for x]
    consider (arr) "c = CHR ''[''" | (obj) "c = CHR ''{''" | (other) "c \<noteq> CHR ''[''" "c \<noteq> CHR ''{''"
      by blast
    then show ?thesis
    proof cases
      case arr
      from "1.prems" Cons arr obtain c' r where
        d: "\<not> maxNestingDepth \<le> d" and sk: "skipSpace cs = c' # r"
        by (auto simp: unfold split: if_splits list.splits)
      show ?thesis
      proof (cases "c' = CHR '']''")
        case True
        with "1.prems" Cons arr d sk have "rest = r" by (simp add: unfold)
        with skipSpace_Cons [OF sk] Cons show ?thesis by simp
      next
        case False
        with "1.prems" Cons arr d sk obtain vs where
          "parseElems (d + 1) (skipSpace cs) = Some (vs, rest)"
          by (auto simp: unfold split: option.splits)
        from "1.IH"(1) [OF Cons arr d sk False this] skip Cons show ?thesis by simp
      qed
    next
      case obj
      from "1.prems" Cons obj obtain c' r where
        d: "\<not> maxNestingDepth \<le> d" and sk: "skipSpace cs = c' # r"
        by (auto simp: unfold split: if_splits list.splits)
      show ?thesis
      proof (cases "c' = CHR ''}''")
        case True
        with "1.prems" Cons obj d sk have "rest = r" by (simp add: unfold)
        with skipSpace_Cons [OF sk] Cons show ?thesis by simp
      next
        case False
        with "1.prems" Cons obj d sk obtain ms where
          "parseMembers (d + 1) (skipSpace cs) = Some (ms, rest)"
          by (auto simp: unfold split: option.splits)
        from "1.IH"(2) [OF Cons _ obj d sk False this] skip Cons obj show ?thesis by simp
      qed
    next
      case other
      from "1.prems" Cons other
      have "(\<exists>t. scanString cs = Some (t, rest)) \<or> (\<exists>w. scanWord w cs = Some rest)
              \<or> (\<exists>lit. scanNumber (c # cs) = Some (lit, rest))"
        by (auto simp add: unfold split: if_splits option.splits prod.splits)
      with Cons show ?thesis
        using scanString_shorter [of cs _ rest] scanWord_shorter [of _ cs rest]
          scanNumber_shorter [of "c # cs" _ rest]
        by fastforce
    qed
  qed
next
  case (2 d s)
  from "2.prems" obtain v rest c r where
    pv: "parseValue d s = Some (v, rest)" and sk: "skipSpace rest = c # r"
    by (auto simp: parseElems.simps [of d s] split: option.splits list.splits)
  from "2.IH"(1) [OF pv] have l1: "length rest < length s" .
  with skipSpace_Cons [OF sk] have l2: "length r < length s" by simp
  show ?case
  proof (cases "c = CHR '',''")
    case True
    with "2.prems" pv sk l2 obtain vs' where
      pe: "parseElems d (skipSpace r) = Some (vs', rest1)"
      by (auto simp: parseElems.simps [of d s] split: option.splits)
    from "2.IH"(2) [OF pv refl sk True l2 pe] skipSpace_le [of r] l2 show ?thesis by simp
  next
    case False
    with "2.prems" pv sk have "rest1 = r"
      by (auto simp: parseElems.simps [of d s] split: if_splits)
    with l2 show ?thesis by simp
  qed
next
  case (3 d s)
  from "3.prems" obtain c cs k rest c1 r1 where
    s: "s = c # cs" and c: "c = quote" and ss: "scanString cs = Some (k, rest)"
    and sk1: "skipSpace rest = c1 # r1" and c1: "c1 = CHR '':''" and g1: "length r1 < length s"
    by (auto simp: parseMembers.simps [of d s] split: list.splits if_splits option.splits)
  from "3.prems" s c ss sk1 c1 g1 obtain v restv c2 r2 where
    pv: "parseValue d (skipSpace r1) = Some (v, restv)" and sk2: "skipSpace restv = c2 # r2"
    by (auto simp: parseMembers.simps [of d "x # xs" for x xs] split: list.splits if_splits option.splits)
  have "length restv < length (skipSpace r1)"
    using "3.IH"(1) [OF s c ss refl sk1 _ pv] c1 g1 by simp
  with skipSpace_le [of r1] g1 skipSpace_Cons [OF sk2] have l2: "length r2 < length s" by simp
  show ?case
  proof (cases "c2 = CHR '',''")
    case True
    with "3.prems" s c ss sk1 c1 g1 pv sk2 l2 obtain ms' where
      pm: "parseMembers d (skipSpace r2) = Some (ms', rest2)"
      by (auto simp: parseMembers.simps [of d "x # xs" for x xs] split: option.splits)
    from "3.IH"(2) [OF s c ss refl sk1 _ pv refl sk2 True l2 pm] c1 g1 skipSpace_le [of r2] l2
    show ?thesis by simp
  next
    case False
    with "3.prems" s c ss sk1 c1 g1 pv sk2 have "rest2 = r2"
      by (auto simp: parseMembers.simps [of d "x # xs" for x xs] split: if_splits)
    with l2 show ?thesis by simp
  qed
qed


lemma parseElems_unguarded:
  "parseElems d s =
     (case parseValue d s of
        None \<Rightarrow> None
      | Some (v, rest) \<Rightarrow>
          (case skipSpace rest of
             [] \<Rightarrow> None
           | c # r \<Rightarrow>
               if c = CHR '','' then
                 (case parseElems d (skipSpace r) of
                    None \<Rightarrow> None
                  | Some (vs, rest') \<Rightarrow> Some (v # vs, rest'))
               else if c = CHR '']'' then Some ([v], r)
               else None))"
proof (cases "parseValue d s")
  case None
  then show ?thesis
    by (subst parseElems.simps) simp
next
  case (Some p)
  obtain v rest where p: "p = (v, rest)"
    by (cases p)
  show ?thesis
  proof (cases "skipSpace rest")
    case Nil
    with Some p show ?thesis
      by (subst parseElems.simps) simp
  next
    case (Cons c r)
    from Some p have "length rest < length s"
      by (simp add: parse_consumes(1))
    with skipSpace_Cons [OF Cons] have "length r < length s"
      by simp
    with Some p Cons show ?thesis
      by (subst parseElems.simps) simp
  qed
qed

lemma parseMembers_unguarded:
  "parseMembers d s =
     (case s of
        [] \<Rightarrow> None
      | c # cs \<Rightarrow>
          if c = quote then
            (case scanString cs of
               None \<Rightarrow> None
             | Some (k, rest) \<Rightarrow>
                 (case skipSpace rest of
                    [] \<Rightarrow> None
                  | c1 # r1 \<Rightarrow>
                      if c1 = CHR '':'' then
                        (case parseValue d (skipSpace r1) of
                           None \<Rightarrow> None
                         | Some (v, rest2) \<Rightarrow>
                             (case skipSpace rest2 of
                                [] \<Rightarrow> None
                              | c2 # r2 \<Rightarrow>
                                  if c2 = CHR '','' then
                                    (case parseMembers d (skipSpace r2) of
                                       None \<Rightarrow> None
                                     | Some (ms, rest') \<Rightarrow> Some ((k, v) # ms, rest'))
                                  else if c2 = CHR ''}'' then Some ([(k, v)], r2)
                                  else None))
                      else None))
          else None)"
proof (cases s)
  case Nil
  then show ?thesis
    by (subst parseMembers.simps) simp
next
  case s: (Cons c cs)
  show ?thesis
  proof (cases "scanString cs")
    case None
    with s show ?thesis
      by (subst parseMembers.simps) simp
  next
    case (Some p)
    obtain k rest where p: "p = (k, rest)"
      by (cases p)
    show ?thesis
    proof (cases "skipSpace rest")
      case Nil
      with s Some p show ?thesis
        by (subst parseMembers.simps) simp
    next
      case sk1: (Cons c1 r1)
      from Some p have "length rest < length cs"
        by (simp add: scanString_shorter)
      with skipSpace_Cons [OF sk1] s have g1: "length r1 < length s"
        by simp
      show ?thesis
      proof (cases "parseValue d (skipSpace r1)")
        case None
        with s Some p sk1 show ?thesis
          by (subst parseMembers.simps) simp
      next
        case pv: (Some q)
        obtain v rest2 where q: "q = (v, rest2)"
          by (cases q)
        show ?thesis
        proof (cases "skipSpace rest2")
          case Nil
          with s Some p sk1 pv q show ?thesis
            by (subst parseMembers.simps) simp
        next
          case sk2: (Cons c2 r2)
          from pv q have "length rest2 < length (skipSpace r1)"
            by (simp add: parse_consumes(1))
          with skipSpace_le [of r1] g1 skipSpace_Cons [OF sk2] have g2: "length r2 < length s"
            by simp
          from s Some p sk1 pv q sk2 g1 g2 show ?thesis
            by (subst parseMembers.simps) simp
        qed
      qed
    qed
  qed
qed

section \<open>What the decoder stores\<close>

text \<open>
  Decoding an object into the envelope always succeeds and leaves in each field the
  region of that field.  Decoding an object into an \<open>ErrorResponse\<close>, when it
  succeeds, leaves the decoded message and code.
\<close>

lemma region_Nil: "region name [] = []"
  by (simp add: region_def)

lemma region_snoc:
  "region name (ms @ [m]) = (if selects name m then raw (snd m) else region name ms)"
  by (simp add: region_def split: list.splits)

lemma foldName_data: "foldName ''data'' = ''DATA''"
  by code_simp

lemma foldName_errors: "foldName ''errors'' = ''ERRORS''"
  by code_simp

lemma data_not_errors: "matchField key ''data'' \<Longrightarrow> \<not> matchField key ''errors''"
  by (simp add: matchField_def foldName_data foldName_errors)

lemma fold_fieldBaseResponse:
  "foldl (\<lambda>st m. fieldBaseResponse (unquote (fst m)) (snd m) st) (zeroBaseResponse, None) ms
     = (\<lparr>Data = region ''data'' ms, Errors = region ''errors'' ms\<rparr>, None)"
proof (induction ms rule: rev_induct)
  case Nil
  show ?case
    by (simp add: region_Nil zeroBaseResponse_def)
next
  case (snoc m ms)
  have "foldl (\<lambda>st m. fieldBaseResponse (unquote (fst m)) (snd m) st) (zeroBaseResponse, None) (ms @ [m])
          = fieldBaseResponse (unquote (fst m)) (snd m)
              (\<lparr>Data = region ''data'' ms, Errors = region ''errors'' ms\<rparr>, None)"
    by (simp add: snoc.IH)
  also have "\<dots> = (\<lparr>Data = region ''data'' (ms @ [m]), Errors = region ''errors'' (ms @ [m])\<rparr>, None)"
    using data_not_errors [of "unquote (fst m)"]
    by (simp add: region_snoc fieldBaseResponse_def storeRaw_def selects_def)
  finally show ?case .
qed

lemma UnmarshalBaseResponse_object:
  assumes "parseJSON body = Some (JObject r ms)"
  shows "UnmarshalBaseResponse body zeroBaseResponse
           = (\<lparr>Data = region ''data'' ms, Errors = region ''errors'' ms\<rparr>, None)"
  using assms by (simp add: UnmarshalBaseResponse_def unmarshalStruct_def fold_fieldBaseResponse)


lemma stored_Nil: "stored name [] = None"
  by (simp add: stored_def)

lemma stored_snoc:
  "stored name (ms @ [m]) = (if selects name m \<and> snd m \<noteq> JNull then Some (snd m) else stored name ms)"
  by (simp add: stored_def split: list.splits)

lemma foldName_message: "foldName ''message'' = ''MESSAGE''"
  by code_simp

lemma foldName_code: "foldName ''code'' = ''CODE''"
  by code_simp

lemma foldName_validations: "foldName ''validations'' = ''VALIDATIONS''"
  by code_simp

lemma ErrorResponse_fields_distinct:
  "matchField key ''message'' \<Longrightarrow> \<not> matchField key ''code''"
  "matchField key ''message'' \<Longrightarrow> \<not> matchField key ''validations''"
  "matchField key ''code'' \<Longrightarrow> \<not> matchField key ''validations''"
  by (simp_all add: matchField_def foldName_message foldName_code foldName_validations)

lemma saveError_Some: "(snd (saveError e st) = None) = False"
  by (simp add: saveError_def split: option.splits)

lemma storeString_None:
  "snd (storeString upd v st) = None \<Longrightarrow>
     snd st = None \<and> (v = JNull \<and> fst (storeString upd v st) = fst st
                       \<or> (\<exists>t. v = JString t \<and> fst (storeString upd v st) = upd (unquote t) (fst st)))"
  by (cases v) (simp_all add: storeString_def saveError_Some)

lemma storeInt_None:
  "snd (storeInt upd v st) = None \<Longrightarrow>
     snd st = None \<and> (v = JNull \<and> fst (storeInt upd v st) = fst st
                       \<or> (\<exists>lit n. v = JNumber lit \<and> parseInt lit = Some n
                             \<and> fst (storeInt upd v st) = upd n (fst st)))"
  by (cases v) (auto simp add: storeInt_def saveError_Some split: option.splits)

lemma storeInterfaces_None:
  "snd (storeInterfaces upd v st) = None \<Longrightarrow>
     snd st = None \<and> (\<exists>vs. fst (storeInterfaces upd v st) = upd vs (fst st))"
  by (cases v) (auto simp add: storeInterfaces_def saveError_Some split: option.splits)

lemma fieldErrorResponse_None:
  assumes "snd (fieldErrorResponse (unquote (fst m)) (snd m) st) = None"
  shows "snd st = None"
  using assms
    storeString_None [of "\<lambda>x s. s\<lparr>ErrorResponse.Message := x\<rparr>" "snd m" st]
    storeInt_None [of "\<lambda>x s. s\<lparr>ErrorResponse.Code := x\<rparr>" "snd m" st]
    storeInterfaces_None [of "\<lambda>x s. s\<lparr>Validations := x\<rparr>" "snd m" st]
  by (simp add: fieldErrorResponse_def split: if_splits)

lemma decoded_snoc_other:
  shows "\<not> selects ''message'' m \<or> snd m = JNull \<Longrightarrow> decodedMessage (ms @ [m]) = decodedMessage ms"
    and "\<not> selects ''code'' m \<or> snd m = JNull \<Longrightarrow> decodedCode (ms @ [m]) = decodedCode ms"
  by (auto simp add: decodedMessage_def decodedCode_def stored_snoc)

lemma decoded_snoc_message:
  assumes "selects ''message'' m" and "snd m = JString t"
  shows "decodedMessage (ms @ [m]) = unquote t"
  using assms by (simp add: decodedMessage_def stored_snoc)

lemma decoded_snoc_code:
  assumes "selects ''code'' m" and "snd m = JNumber lit" and "parseInt lit = Some n"
  shows "decodedCode (ms @ [m]) = n"
  using assms by (simp add: decodedCode_def stored_snoc)

lemma fold_fieldErrorResponse:
  assumes "foldl (\<lambda>st m. fieldErrorResponse (unquote (fst m)) (snd m) st) (zeroErrorResponse, None) ms
             = (er, None)"
  shows "ErrorResponse.Message er = decodedMessage ms \<and> ErrorResponse.Code er = decodedCode ms"
  using assms
proof (induction ms arbitrary: er rule: rev_induct)
  case Nil
  then show ?case
    by (auto simp add: decodedMessage_def decodedCode_def stored_Nil zeroErrorResponse_def)
next
  case (snoc m ms)
  let ?step = "\<lambda>st m. fieldErrorResponse (unquote (fst m)) (snd m) st"
  obtain er' eo' where prev: "foldl ?step (zeroErrorResponse, None) ms = (er', eo')"
    by (cases "foldl ?step (zeroErrorResponse, None) ms")
  from snoc.prems prev have last: "fieldErrorResponse (unquote (fst m)) (snd m) (er', eo') = (er, None)"
    by simp
  then have "eo' = None"
    using fieldErrorResponse_None [of m "(er', eo')"] by simp
  with prev snoc.IH have IH: "ErrorResponse.Message er' = decodedMessage ms"
    "ErrorResponse.Code er' = decodedCode ms"
    by simp_all
  note sel = ErrorResponse_fields_distinct [of "unquote (fst m)"]
  consider (message) "selects ''message'' m" | (code) "selects ''code'' m"
    | (validations) "selects ''validations'' m"
    | (none) "\<not> selects ''message'' m" "\<not> selects ''code'' m" "\<not> selects ''validations'' m"
    by blast
  then show ?case
  proof cases
    case message
    with sel have nc: "\<not> selects ''code'' m"
      by (simp add: selects_def)
    from message last \<open>eo' = None\<close>
    have st: "storeString (\<lambda>x s. s\<lparr>ErrorResponse.Message := x\<rparr>) (snd m) (er', None) = (er, None)"
      by (simp add: fieldErrorResponse_def selects_def)
    from storeString_None [of "\<lambda>x s. s\<lparr>ErrorResponse.Message := x\<rparr>" "snd m" "(er', None)"] st
    have "snd m = JNull \<and> er = er' \<or> (\<exists>t. snd m = JString t \<and> er = er'\<lparr>ErrorResponse.Message := unquote t\<rparr>)"
      by simp
    then show ?thesis
    proof (elim disjE conjE exE)
      assume "snd m = JNull" "er = er'"
      with IH decoded_snoc_other [of m ms] show ?thesis
        by simp
    next
      fix t
      assume "snd m = JString t" "er = er'\<lparr>ErrorResponse.Message := unquote t\<rparr>"
      with IH nc message decoded_snoc_message [of m t ms] decoded_snoc_other(2) [of m ms] show ?thesis
        by simp
    qed
  next
    case code
    with sel have nm: "\<not> selects ''message'' m"
      by (auto simp add: selects_def)
    from code nm last \<open>eo' = None\<close>
    have st: "storeInt (\<lambda>x s. s\<lparr>ErrorResponse.Code := x\<rparr>) (snd m) (er', None) = (er, None)"
      by (simp add: fieldErrorResponse_def selects_def)
    from storeInt_None [of "\<lambda>x s. s\<lparr>ErrorResponse.Code := x\<rparr>" "snd m" "(er', None)"] st
    have "snd m = JNull \<and> er = er'
          \<or> (\<exists>lit n. snd m = JNumber lit \<and> parseInt lit = Some n \<and> er = er'\<lparr>ErrorResponse.Code := n\<rparr>)"
      by simp
    then show ?thesis
    proof (elim disjE conjE exE)
      assume "snd m = JNull" "er = er'"
      with IH decoded_snoc_other [of m ms] show ?thesis
        by simp
    next
      fix lit n
      assume "snd m = JNumber lit" "parseInt lit = Some n" "er = er'\<lparr>ErrorResponse.Code := n\<rparr>"
      with IH nm code decoded_snoc_code [of m lit n ms] decoded_snoc_other(1) [of m ms] show ?thesis
        by simp
    qed
  next
    case validations
    with sel have nm: "\<not> selects ''message'' m" and nc: "\<not> selects ''code'' m"
      by (auto simp add: selects_def)
    from validations nm nc last \<open>eo' = None\<close>
    have st: "storeInterfaces (\<lambda>x s. s\<lparr>Validations := x\<rparr>) (snd m) (er', None) = (er, None)"
      by (simp add: fieldErrorResponse_def selects_def)
    from storeInterfaces_None [of "\<lambda>x s. s\<lparr>Validations := x\<rparr>" "snd m" "(er', None)"] st
    obtain vs where "er = er'\<lparr>Validations := vs\<rparr>"
      by auto
    with IH nm nc decoded_snoc_other [of m ms] show ?thesis
      by simp
  next
    case none
    with last have "er = er'"
      by (simp add: fieldErrorResponse_def selects_def)
    with IH none decoded_snoc_other [of m ms] show ?thesis
      by simp
  qed
qed

lemma UnmarshalErrorResponse_object:
  assumes "parseJSON e = Some (JObject r ms)"
    and "UnmarshalErrorResponse e zeroErrorResponse = (er, None)"
  shows "ErrorResponse.Message er = decodedMessage ms \<and> ErrorResponse.Code er = decodedCode ms"
  using assms fold_fieldErrorResponse [of ms er]
  by (simp add: UnmarshalErrorResponse_def unmarshalStruct_def)

section \<open>The text of an error report\<close>

text \<open>
  \<open>formatInt\<close> is injective and writes no comma, so the text
  \<open>error code: <code>, error: <message>\<close> determines the code and the message.
\<close>

lemma byte_char_of_digit: "k < 10 \<Longrightarrow> byte (char_of (48 + k)) = 48 + int k"
proof -
  assume k: "k < 10"
  have "byte (char_of (48 + k)) = int (of_char (char_of (48 + k)))"
    unfolding byte_def by (rule of_nat_of_char [symmetric])
  also have "\<dots> = int ((48 + k) mod 256)"
    by simp
  also from k have "\<dots> = 48 + int k"
    by simp
  finally show ?thesis .
qed

lemma digitsValue_snoc: "digitsValue (ds @ [c]) = 10 * digitsValue ds + (byte c - 48)"
  by (simp add: digitsValue_def)

lemma digitsValue_decimal: "digitsValue (decimal n) = int n"
proof (induction n rule: decimal.induct)
  case (1 n)
  show ?case
  proof (cases "n < 10")
    case True
    then show ?thesis
      by (simp add: decimal.simps [of n] digitsValue_def byte_char_of_digit)
  next
    case False
    with 1 have IH: "digitsValue (decimal (n div 10)) = int (n div 10)"
      by simp
    have "n mod 10 < 10"
      by simp
    moreover have "10 * int (n div 10) + int (n mod 10) = int n"
      by presburger
    ultimately show ?thesis
      using False IH by (simp add: decimal.simps [of n] digitsValue_snoc byte_char_of_digit)
  qed
qed

lemma decimal_digits: "decimal n \<noteq> [] \<and> list_all isDigit (decimal n)"
proof (induction n rule: decimal.induct)
  case (1 n)
  have m: "n mod 10 < 10"
    by simp
  show ?case
  proof (cases "n < 10")
    case True
    then show ?thesis
      by (simp add: decimal.simps [of n] isDigit_def byte_char_of_digit)
  next
    case False
    with 1 m show ?thesis
      by (simp add: decimal.simps [of n] isDigit_def byte_char_of_digit)
  qed
qed

lemma isDigit_not_minus: "isDigit c \<Longrightarrow> c \<noteq> CHR ''-''"
  by (auto simp add: isDigit_def byte_def)

lemma isDigit_not_comma: "isDigit c \<Longrightarrow> c \<noteq> CHR '',''"
  by (auto simp add: isDigit_def byte_def)

lemma decimal_head: "\<exists>c cs. decimal n = c # cs \<and> isDigit c"
  using decimal_digits [of n] by (cases "decimal n") simp_all

lemma formatInt_inj:
  assumes "formatInt a = formatInt b"
  shows "a = b"
proof -
  have neg: "formatInt i = CHR ''-'' # decimal (nat (- i))" if "i < 0" for i
    using that by (simp add: formatInt_def)
  have pos: "formatInt i = decimal (nat i)" if "\<not> i < 0" for i
    using that by (simp add: formatInt_def)
  have hd_pos: "hd (formatInt i) \<noteq> CHR ''-''" if "\<not> i < 0" for i
    using that decimal_head [of "nat i"] isDigit_not_minus by (auto simp add: pos)
  have hd_neg: "hd (formatInt i) = CHR ''-''" if "i < 0" for i
    using that by (simp add: neg)
  show ?thesis
  proof (cases "a < 0")
    case True
    with assms hd_neg [of a] hd_pos [of b] have b: "b < 0"
      by auto
    with True assms have "decimal (nat (- a)) = decimal (nat (- b))"
      by (simp add: neg)
    then have "digitsValue (decimal (nat (- a))) = digitsValue (decimal (nat (- b)))"
      by simp
    with True b show ?thesis
      by (simp add: digitsValue_decimal)
  next
    case False
    with assms hd_neg [of b] hd_pos [of a] have b: "\<not> b < 0"
      by auto
    with False assms have "decimal (nat a) = decimal (nat b)"
      by (simp add: pos)
    then have "digitsValue (decimal (nat a)) = digitsValue (decimal (nat b))"
      by simp
    with False b show ?thesis
      by (simp add: digitsValue_decimal)
  qed
qed

lemma formatInt_no_comma: "CHR '','' \<notin> set (formatInt i)"
  using decimal_digits [of "nat i"] decimal_digits [of "nat (- i)"] isDigit_not_comma
  by (auto simp add: formatInt_def list_all_iff)

lemma split_at_comma:
  assumes "CHR '','' \<notin> set xs" and "CHR '','' \<notin> set ys"
    and "xs @ CHR '','' # r = ys @ CHR '','' # r'"
  shows "xs = ys \<and> r = r'"
proof -
  have tw: "CHR '','' \<notin> set zs \<Longrightarrow> takeWhile (\<lambda>c. c \<noteq> CHR '','') (zs @ CHR '','' # q) = zs"
    for zs q
    by (induction zs) auto
  have "takeWhile (\<lambda>c. c \<noteq> CHR '','') (xs @ CHR '','' # r) = xs"
    using assms(1) by (rule tw)
  moreover have "takeWhile (\<lambda>c. c \<noteq> CHR '','') (ys @ CHR '','' # r') = ys"
    using assms(2) by (rule tw)
  ultimately have "xs = ys"
    using assms(3) by simp
  with assms(3) show ?thesis
    by simp
qed

lemma error_text_inj:
  assumes "''error code: '' @ formatInt c @ '', error: '' @ m
             = ''error code: '' @ formatInt c' @ '', error: '' @ m'"
  shows "c = c' \<and> m = m'"
proof -
  from assms have "formatInt c @ CHR '','' # ('' error: '' @ m) = formatInt c' @ CHR '','' # ('' error: '' @ m')"
    by simp
  from split_at_comma [OF formatInt_no_comma formatInt_no_comma this]
  have "formatInt c = formatInt c'" and "m = m'"
    by simp_all
  with formatInt_inj show ?thesis
    by blast
qed

section \<open>Properties of the response envelope decoder\<close>

text \<open>The four paths of \<open>checkResponse\<close>, one lemma each.\<close>

lemma checkResponse_envelope_error:
  assumes "UnmarshalBaseResponse body zeroBaseResponse = (b, Some e)"
  shows "checkResponse body = ([], Some (JSONError e))"
  using assms by (simp add: checkResponse_def)

lemma checkResponse_no_errors:
  assumes "UnmarshalBaseResponse body zeroBaseResponse = (b, None)"
    and "Errors b = ''[]'' \<or> Errors b = ''{}'' \<or> Errors b = ''''"
  shows "checkResponse body = (Data b, None)"
  using assms by (auto simp add: checkResponse_def)

lemma checkResponse_errors_malformed:
  assumes "UnmarshalBaseResponse body zeroBaseResponse = (b, None)"
    and "Errors b \<noteq> ''[]''" and "Errors b \<noteq> ''{}''" and "Errors b \<noteq> ''''"
    and "UnmarshalErrorResponse (Errors b) zeroErrorResponse = (er, Some e)"
  shows "checkResponse body = ([], Some (JSONError e))"
  using assms by (simp add: checkResponse_def)

lemma checkResponse_errors_reported:
  assumes "UnmarshalBaseResponse body zeroBaseResponse = (b, None)"
    and "Errors b \<noteq> ''[]''" and "Errors b \<noteq> ''{}''" and "Errors b \<noteq> ''''"
    and "UnmarshalErrorResponse (Errors b) zeroErrorResponse = (er, None)"
  shows "checkResponse body =
           ([], Some (Errorf (''error code: '' @ formatInt (ErrorResponse.Code er)
                               @ '', error: '' @ ErrorResponse.Message er)))"
  using assms by (simp add: checkResponse_def)

lemma UnmarshalErrorResponse_null:
  "UnmarshalErrorResponse ''null'' zeroErrorResponse = (zeroErrorResponse, None)"
  by code_simp

text \<open>
  C1 (as the code has it).  When the bytes of the errors region are exactly \<open>[]\<close> or
  \<open>{}\<close>, or there are none (the envelope has no errors field), \<open>checkResponse\<close>
  returns the bytes of the data region as they are, and no error.
\<close>

theorem checkResponse_empty_errors_returns_data:
  assumes "UnmarshalBaseResponse body zeroBaseResponse = (b, None)"
    and "Errors b = ''[]'' \<or> Errors b = ''{}'' \<or> Errors b = ''''"
  shows "checkResponse body = (Data b, None)"
  using assms by (rule checkResponse_no_errors)

theorem checkResponse_empty_errors_returns_data_witness:
  \<open>UnmarshalBaseResponse ''{"data":{"authority":"A1"},"errors":[]}'' zeroBaseResponse
     = (\<lparr>Data = ''{"authority":"A1"}'', Errors = ''[]''\<rparr>, None)
   \<and> checkResponse ''{"data":{"authority":"A1"},"errors":[]}'' = (''{"authority":"A1"}'', None)
   \<and> UnmarshalBaseResponse ''{"errors":{},"data":[ 1,2 ]}'' zeroBaseResponse
     = (\<lparr>Data = ''[ 1,2 ]'', Errors = ''{}''\<rparr>, None)
   \<and> checkResponse ''{"errors":{},"data":[ 1,2 ]}'' = (''[ 1,2 ]'', None)
   \<and> UnmarshalBaseResponse ''{"data":"paid"}'' zeroBaseResponse
     = (\<lparr>Data = [CHR 0x22, CHR ''p'', CHR ''a'', CHR ''i'', CHR ''d'', CHR 0x22], Errors = ''''\<rparr>, None)
   \<and> checkResponse ''{"data":"paid"}'' = ([CHR 0x22, CHR ''p'', CHR ''a'', CHR ''i'', CHR ''d'', CHR 0x22], None)\<close>
proof -
  have h1: \<open>UnmarshalBaseResponse ''{"data":{"authority":"A1"},"errors":[]}'' zeroBaseResponse
     = (\<lparr>Data = ''{"authority":"A1"}'', Errors = ''[]''\<rparr>, None)\<close>
    by code_simp
  have h2: \<open>UnmarshalBaseResponse ''{"errors":{},"data":[ 1,2 ]}'' zeroBaseResponse
     = (\<lparr>Data = ''[ 1,2 ]'', Errors = ''{}''\<rparr>, None)\<close>
    by code_simp
  have h3: \<open>UnmarshalBaseResponse ''{"data":"paid"}'' zeroBaseResponse
     = (\<lparr>Data = [CHR 0x22, CHR ''p'', CHR ''a'', CHR ''i'', CHR ''d'', CHR 0x22], Errors = ''''\<rparr>, None)\<close>
    by code_simp
  show ?thesis
    using h1 h2 h3
      checkResponse_empty_errors_returns_data [OF h1]
      checkResponse_empty_errors_returns_data [OF h2]
      checkResponse_empty_errors_returns_data [OF h3]
    by simp
qed

text \<open>
  C1 as stated fails for the JSON empty string: the errors region \<open>""\<close> is two bytes,
  not the empty Go string that the code compares with, so it is taken for an error
  report, which it is not, and the data region is not returned.
\<close>

theorem checkResponse_empty_string_errors_counterexample:
  \<open>UnmarshalBaseResponse ''{"data":{"authority":"A1"},"errors":""}'' zeroBaseResponse
     = (\<lparr>Data = ''{"authority":"A1"}'', Errors = [CHR 0x22, CHR 0x22]\<rparr>, None)
   \<and> checkResponse ''{"data":{"authority":"A1"},"errors":""}''
     = ([], Some (JSONError (UnmarshalTypeError ''string'')))\<close>
  by code_simp

text \<open>
  C3 (as the code has it).  When the errors region is not one of the three empty forms
  and decodes as a whole into an \<open>ErrorResponse\<close>, its \<open>validations\<close> member
  included, \<open>checkResponse\<close> returns no data and the error
  \<open>error code: <code>, error: <message>\<close> with the code and the message decoded.
\<close>

theorem checkResponse_reports_gateway_error:
  assumes "UnmarshalBaseResponse body zeroBaseResponse = (b, None)"
    and "Errors b \<noteq> ''[]''" and "Errors b \<noteq> ''{}''" and "Errors b \<noteq> ''''"
    and "UnmarshalErrorResponse (Errors b) zeroErrorResponse = (er, None)"
  shows "checkResponse body =
           ([], Some (Errorf (''error code: '' @ formatInt (ErrorResponse.Code er)
                               @ '', error: '' @ ErrorResponse.Message er)))"
  using assms by (rule checkResponse_errors_reported)

theorem checkResponse_reports_gateway_error_witness:
  \<open>UnmarshalBaseResponse
      ''{"data":[],"errors":{"message":"The amount must be at least 1000.","code":-9,"validations":[]}}''
      zeroBaseResponse
     = (\<lparr>Data = ''[]'',
         Errors = ''{"message":"The amount must be at least 1000.","code":-9,"validations":[]}''\<rparr>, None)
   \<and> UnmarshalErrorResponse
        ''{"message":"The amount must be at least 1000.","code":-9,"validations":[]}'' zeroErrorResponse
     = (\<lparr>ErrorResponse.Message = ''The amount must be at least 1000.'', ErrorResponse.Code = - 9,
         Validations = []\<rparr>, None)
   \<and> checkResponse
        ''{"data":[],"errors":{"message":"The amount must be at least 1000.","code":-9,"validations":[]}}''
     = ([], Some (Errorf ''error code: -9, error: The amount must be at least 1000.''))\<close>
proof -
  let ?errors = \<open>''{"message":"The amount must be at least 1000.","code":-9,"validations":[]}''\<close>
  let ?body = \<open>''{"data":[],"errors":'' @ ?errors @ ''}''\<close>
  let ?b = "\<lparr>Data = ''[]'', Errors = ?errors\<rparr>"
  let ?er = "\<lparr>ErrorResponse.Message = ''The amount must be at least 1000.'', ErrorResponse.Code = - 9,
              Validations = []\<rparr>"
  have h1: "UnmarshalBaseResponse ?body zeroBaseResponse = (?b, None)"
    by code_simp
  have h2: "UnmarshalErrorResponse (Errors ?b) zeroErrorResponse = (?er, None)"
    by code_simp
  have h3: "formatInt (- 9) = ''-9''"
    by code_simp
  have "checkResponse ?body =
          ([], Some (Errorf (''error code: '' @ formatInt (ErrorResponse.Code ?er)
                              @ '', error: '' @ ErrorResponse.Message ?er)))"
    by (rule checkResponse_reports_gateway_error [OF h1 _ _ _ h2]) simp_all
  then show ?thesis
    using h1 h2 h3 by simp
qed

text \<open>
  C3 as stated fails when the \<open>code\<close> and \<open>message\<close> members of the errors
  region parse and another member does not: with an object for \<open>validations\<close>, which
  the struct declares as a list, the decoder stores the code and the message, records a
  type error, and \<open>checkResponse\<close> returns that error, not the report.
\<close>

theorem checkResponse_validations_object_counterexample:
  \<open>UnmarshalBaseResponse
      ''{"data":[],"errors":{"code":-9,"message":"m","validations":{"amount":"too low"}}}''
      zeroBaseResponse
     = (\<lparr>Data = ''[]'',
         Errors = ''{"code":-9,"message":"m","validations":{"amount":"too low"}}''\<rparr>, None)
   \<and> parseJSON ''{"code":-9,"message":"m","validations":{"amount":"too low"}}''
     = Some (JObject ''{"code":-9,"message":"m","validations":{"amount":"too low"}}''
          [(''code'', JNumber ''-9''), (''message'', JString ''m''),
           (''validations'', JObject ''{"amount":"too low"}'' [(''amount'', JString ''too low'')])])
   \<and> parseInt ''-9'' = Some (- 9)
   \<and> unquote ''m'' = ''m''
   \<and> UnmarshalErrorResponse ''{"code":-9,"message":"m","validations":{"amount":"too low"}}''
        zeroErrorResponse
     = (\<lparr>ErrorResponse.Message = ''m'', ErrorResponse.Code = - 9, Validations = []\<rparr>,
        Some (UnmarshalTypeError ''object''))
   \<and> checkResponse
        ''{"data":[],"errors":{"code":-9,"message":"m","validations":{"amount":"too low"}}}''
     = ([], Some (JSONError (UnmarshalTypeError ''object'')))\<close>
  by code_simp

text \<open>
  C4.  \<open>checkResponse\<close> returns an error \<open>e\<close> of encoding/json exactly when
  decoding the body into the envelope fails with \<open>e\<close>, or the envelope decodes, its
  errors region is not one of the three empty forms, and decoding that region into an
  \<open>ErrorResponse\<close> fails with \<open>e\<close>.
\<close>

theorem checkResponse_malformed_envelope_iff:
  "(snd (checkResponse body) = Some (JSONError e)) =
     (snd (UnmarshalBaseResponse body zeroBaseResponse) = Some e
      \<or> (snd (UnmarshalBaseResponse body zeroBaseResponse) = None
          \<and> Errors (fst (UnmarshalBaseResponse body zeroBaseResponse)) \<notin> {''[]'', ''{}'', ''''}
          \<and> snd (UnmarshalErrorResponse (Errors (fst (UnmarshalBaseResponse body zeroBaseResponse)))
                  zeroErrorResponse) = Some e))"
proof -
  obtain b eo where B: "UnmarshalBaseResponse body zeroBaseResponse = (b, eo)"
    by (cases "UnmarshalBaseResponse body zeroBaseResponse")
  obtain er eo' where E: "UnmarshalErrorResponse (Errors b) zeroErrorResponse = (er, eo')"
    by (cases "UnmarshalErrorResponse (Errors b) zeroErrorResponse")
  show ?thesis
  proof (cases eo)
    case (Some e')
    with B show ?thesis
      by (simp add: checkResponse_def)
  next
    case None
    show ?thesis
    proof (cases "Errors b = ''[]'' \<or> Errors b = ''{}'' \<or> Errors b = ''''")
      case True
      with B None show ?thesis
        by (auto simp add: checkResponse_def)
    next
      case False
      with B None E show ?thesis
        by (cases eo') (simp_all add: checkResponse_def)
    qed
  qed
qed

theorem checkResponse_malformed_envelope_iff_witness:
  \<open>snd (UnmarshalBaseResponse ''<html>Bad Gateway</html>'' zeroBaseResponse) = Some SyntaxError
   \<and> snd (checkResponse ''<html>Bad Gateway</html>'') = Some (JSONError SyntaxError)
   \<and> UnmarshalBaseResponse ''{"data":[],"errors":{"code":"-9"}}'' zeroBaseResponse
       = (\<lparr>Data = ''[]'', Errors = ''{"code":"-9"}''\<rparr>, None)
   \<and> snd (UnmarshalErrorResponse ''{"code":"-9"}'' zeroErrorResponse) = Some (UnmarshalTypeError ''string'')
   \<and> snd (checkResponse ''{"data":[],"errors":{"code":"-9"}}'')
       = Some (JSONError (UnmarshalTypeError ''string''))
   \<and> snd (UnmarshalBaseResponse ''{"data":[],"errors":{"code":-9}}'' zeroBaseResponse) = None
   \<and> snd (UnmarshalErrorResponse ''{"code":-9}'' zeroErrorResponse) = None
   \<and> snd (checkResponse ''{"data":[],"errors":{"code":-9}}'') \<noteq> Some (JSONError SyntaxError)\<close>
proof -
  let ?bad = \<open>''<html>Bad Gateway</html>''\<close>
  let ?typed = \<open>''{"data":[],"errors":{"code":"-9"}}''\<close>
  let ?good = \<open>''{"data":[],"errors":{"code":-9}}''\<close>
  have h1: "snd (UnmarshalBaseResponse ?bad zeroBaseResponse) = Some SyntaxError"
    by code_simp
  have h2: \<open>UnmarshalBaseResponse ?typed zeroBaseResponse
              = (\<lparr>Data = ''[]'', Errors = ''{"code":"-9"}''\<rparr>, None)\<close>
    by code_simp
  have h3: \<open>snd (UnmarshalErrorResponse ''{"code":"-9"}'' zeroErrorResponse)
              = Some (UnmarshalTypeError ''string'')\<close>
    by code_simp
  have h4: \<open>UnmarshalBaseResponse ?good zeroBaseResponse
              = (\<lparr>Data = ''[]'', Errors = ''{"code":-9}''\<rparr>, None)\<close>
    by code_simp
  have h5: \<open>snd (UnmarshalErrorResponse ''{"code":-9}'' zeroErrorResponse) = None\<close>
    by code_simp
  show ?thesis
    using h1 h2 h3 h4 h5
      checkResponse_malformed_envelope_iff [of ?bad SyntaxError]
      checkResponse_malformed_envelope_iff [of ?typed "UnmarshalTypeError ''string''"]
      checkResponse_malformed_envelope_iff [of ?good SyntaxError]
    by simp
qed

text \<open>
  C9.  An errors region \<open>null\<close> reaches \<open>checkResponse\<close> as the four bytes
  \<open>null\<close>, which is none of the three empty forms; it decodes into an
  \<open>ErrorResponse\<close> without an error and without storing anything, so the result is
  the error with code 0 and an empty message, and no data.
\<close>

theorem checkResponse_null_errors:
  assumes "UnmarshalBaseResponse body zeroBaseResponse = (b, None)"
    and "Errors b = ''null''"
  shows "UnmarshalErrorResponse (Errors b) zeroErrorResponse = (zeroErrorResponse, None)
         \<and> ErrorResponse.Code zeroErrorResponse = 0
         \<and> ErrorResponse.Message zeroErrorResponse = ''''
         \<and> checkResponse body = ([], Some (Errorf ''error code: 0, error: ''))"
proof -
  have E: "UnmarshalErrorResponse (Errors b) zeroErrorResponse = (zeroErrorResponse, None)"
    using assms(2) UnmarshalErrorResponse_null by simp
  have F: "formatInt 0 = ''0''"
    by code_simp
  have "checkResponse body =
          ([], Some (Errorf (''error code: '' @ formatInt (ErrorResponse.Code zeroErrorResponse)
                              @ '', error: '' @ ErrorResponse.Message zeroErrorResponse)))"
    using assms(1) _ _ _ E by (rule checkResponse_errors_reported) (simp_all add: assms(2))
  then show ?thesis
    using E F by (simp add: zeroErrorResponse_def)
qed

theorem checkResponse_null_errors_witness:
  \<open>UnmarshalBaseResponse ''{"data":{"code":100,"ref_id":201},"errors":null}'' zeroBaseResponse
     = (\<lparr>Data = ''{"code":100,"ref_id":201}'', Errors = ''null''\<rparr>, None)
   \<and> checkResponse ''{"data":{"code":100,"ref_id":201},"errors":null}''
     = ([], Some (Errorf ''error code: 0, error: ''))\<close>
proof -
  let ?body = \<open>''{"data":{"code":100,"ref_id":201},"errors":null}''\<close>
  let ?b = \<open>\<lparr>Data = ''{"code":100,"ref_id":201}'', Errors = ''null''\<rparr>\<close>
  have h1: "UnmarshalBaseResponse ?body zeroBaseResponse = (?b, None)"
    by code_simp
  have h2: "Errors ?b = ''null''"
    by simp
  show ?thesis
    using h1 checkResponse_null_errors [OF h1 h2] by simp
qed

section \<open>The envelope decoder on the text of the body\<close>

lemma region_absent:
  assumes "\<forall>m \<in> set ms. \<not> selects name m"
  shows "region name ms = []"
proof -
  from assms have "filter (selects name) ms = []"
    by (simp add: filter_empty_conv)
  then show ?thesis
    by (simp add: region_def)
qed

lemma parseJSON_empty_forms:
  "parseJSON '''' = None" "parseJSON ''[]'' = Some (JArray ''[]'' [])"
  by code_simp+

text \<open>
  When the body is a JSON object and the bytes of its errors member are \<open>[]\<close> or
  \<open>{}\<close>, or it has no errors member, \<open>checkResponse\<close> returns the bytes of its data
  member.
\<close>

theorem checkResponse_envelope_without_errors:
  assumes "parseJSON body = Some (JObject r ms)"
    and "region ''errors'' ms = ''[]'' \<or> region ''errors'' ms = ''{}''
         \<or> (\<forall>m \<in> set ms. \<not> selects ''errors'' m)"
  shows "checkResponse body = (region ''data'' ms, None)"
proof -
  have "UnmarshalBaseResponse body zeroBaseResponse
          = (\<lparr>Data = region ''data'' ms, Errors = region ''errors'' ms\<rparr>, None)"
    using assms(1) by (rule UnmarshalBaseResponse_object)
  moreover have "region ''errors'' ms = ''[]'' \<or> region ''errors'' ms = ''{}'' \<or> region ''errors'' ms = ''''"
    using assms(2) region_absent [of ms "''errors''"] by blast
  ultimately show ?thesis
    using checkResponse_no_errors by fastforce
qed

theorem checkResponse_envelope_without_errors_witness:
  \<open>parseJSON ''{"data":{"authority":"A1"} , "Errors":[]}''
     = Some (JObject ''{"data":{"authority":"A1"} , "Errors":[]}''
          [(''data'', JObject ''{"authority":"A1"}'' [(''authority'', JString ''A1'')]),
           (''Errors'', JArray ''[]'' [])])
   \<and> checkResponse ''{"data":{"authority":"A1"} , "Errors":[]}'' = (''{"authority":"A1"}'', None)
   \<and> parseJSON ''{"data":7}'' = Some (JObject ''{"data":7}'' [(''data'', JNumber ''7'')])
   \<and> checkResponse ''{"data":7}'' = (''7'', None)\<close>
proof -
  let ?body = \<open>''{"data":{"authority":"A1"} , "Errors":[]}''\<close>
  let ?ms = \<open>[(''data'', JObject ''{"authority":"A1"}'' [(''authority'', JString ''A1'')]),
              (''Errors'', JArray ''[]'' [])]\<close>
  let ?ms' = "[(''data'', JNumber ''7'')]"
  have h1: "parseJSON ?body = Some (JObject ?body ?ms)"
    by code_simp
  have h2: "region ''errors'' ?ms = ''[]''"
    by code_simp
  have h3: \<open>region ''data'' ?ms = ''{"authority":"A1"}''\<close>
    by code_simp
  have g1: \<open>parseJSON ''{"data":7}'' = Some (JObject ''{"data":7}'' ?ms')\<close>
    by code_simp
  have g2: "\<forall>m \<in> set ?ms'. \<not> selects ''errors'' m"
    by code_simp
  have g3: "region ''data'' ?ms' = ''7''"
    by code_simp
  show ?thesis
    using h1 h3 g1 g3
      checkResponse_envelope_without_errors [OF h1] h2
      checkResponse_envelope_without_errors [OF g1] g2
    by simp
qed

text \<open>
  When the body is a JSON object whose errors member is a JSON object other than
  \<open>{}\<close> that decodes into an \<open>ErrorResponse\<close>, \<open>checkResponse\<close> returns no data and
  the error whose text holds the code and the message of that object: the values of
  its last \<open>code\<close> and \<open>message\<close> members that are not \<open>null\<close>.
\<close>

theorem checkResponse_error_object:
  assumes "parseJSON body = Some (JObject r ms)"
    and "parseJSON (region ''errors'' ms) = Some (JObject r' ms')"
    and "region ''errors'' ms \<noteq> ''{}''"
    and "snd (UnmarshalErrorResponse (region ''errors'' ms) zeroErrorResponse) = None"
  shows "checkResponse body =
           ([], Some (Errorf (''error code: '' @ formatInt (decodedCode ms')
                               @ '', error: '' @ decodedMessage ms')))"
proof -
  let ?b = "\<lparr>Data = region ''data'' ms, Errors = region ''errors'' ms\<rparr>"
  have B: "UnmarshalBaseResponse body zeroBaseResponse = (?b, None)"
    using assms(1) by (rule UnmarshalBaseResponse_object)
  obtain er where E: "UnmarshalErrorResponse (region ''errors'' ms) zeroErrorResponse = (er, None)"
    using assms(4) by (cases "UnmarshalErrorResponse (region ''errors'' ms) zeroErrorResponse") simp
  from UnmarshalErrorResponse_object [OF assms(2) E]
  have D: "ErrorResponse.Message er = decodedMessage ms'" "ErrorResponse.Code er = decodedCode ms'"
    by simp_all
  have N: "region ''errors'' ms \<noteq> ''[]''" "region ''errors'' ms \<noteq> ''''"
    using assms(2) parseJSON_empty_forms by auto
  have "checkResponse body =
          ([], Some (Errorf (''error code: '' @ formatInt (ErrorResponse.Code er)
                              @ '', error: '' @ ErrorResponse.Message er)))"
    using B _ _ _ _ by (rule checkResponse_errors_reported) (simp_all add: N assms(3) E)
  with D show ?thesis
    by simp
qed

theorem checkResponse_error_object_witness:
  \<open>parseJSON ''{"data":[],"errors":{"code":-11,"message":"Request failed","code":-9,"message":null}}''
     = Some (JObject ''{"data":[],"errors":{"code":-11,"message":"Request failed","code":-9,"message":null}}''
          [(''data'', JArray ''[]'' []),
           (''errors'', JObject ''{"code":-11,"message":"Request failed","code":-9,"message":null}''
              [(''code'', JNumber ''-11''), (''message'', JString ''Request failed''),
               (''code'', JNumber ''-9''), (''message'', JNull)])])
   \<and> checkResponse ''{"data":[],"errors":{"code":-11,"message":"Request failed","code":-9,"message":null}}''
     = ([], Some (Errorf ''error code: -9, error: Request failed''))\<close>
proof -
  let ?errors = \<open>''{"code":-11,"message":"Request failed","code":-9,"message":null}''\<close>
  let ?body = \<open>''{"data":[],"errors":'' @ ?errors @ ''}''\<close>
  let ?ms' = "[(''code'', JNumber ''-11''), (''message'', JString ''Request failed''),
               (''code'', JNumber ''-9''), (''message'', JNull)]"
  let ?ms = "[(''data'', JArray ''[]'' []), (''errors'', JObject ?errors ?ms')]"
  have h1: "parseJSON ?body = Some (JObject ?body ?ms)"
    by code_simp
  have r: "region ''errors'' ?ms = ?errors"
    by code_simp
  have h2: "parseJSON (region ''errors'' ?ms) = Some (JObject ?errors ?ms')"
    unfolding r by code_simp
  have h3: "region ''errors'' ?ms \<noteq> ''{}''"
    unfolding r by simp
  have h4: "snd (UnmarshalErrorResponse (region ''errors'' ?ms) zeroErrorResponse) = None"
    unfolding r by code_simp
  have d: "formatInt (decodedCode ?ms') = ''-9''" "decodedMessage ?ms' = ''Request failed''"
    by code_simp+
  show ?thesis
    using h1 d checkResponse_error_object [OF h1 h2 h3 h4] by simp
qed

text \<open>
  The error that \<open>checkResponse\<close> builds tells the code and the message apart: if its
  text reads as the report of a code \<open>c\<close> and a message \<open>m\<close>, these are the code and
  the message decoded from the errors region.
\<close>

theorem checkResponse_error_text_determines_report:
  assumes "UnmarshalBaseResponse body zeroBaseResponse = (b, None)"
    and "Errors b \<noteq> ''[]''" and "Errors b \<noteq> ''{}''" and "Errors b \<noteq> ''''"
    and "UnmarshalErrorResponse (Errors b) zeroErrorResponse = (er, None)"
    and "snd (checkResponse body) = Some (Errorf (''error code: '' @ formatInt c @ '', error: '' @ m))"
  shows "ErrorResponse.Code er = c \<and> ErrorResponse.Message er = m"
proof -
  have "checkResponse body =
          ([], Some (Errorf (''error code: '' @ formatInt (ErrorResponse.Code er)
                              @ '', error: '' @ ErrorResponse.Message er)))"
    using assms(1-5) by (rule checkResponse_errors_reported)
  with assms(6) have "''error code: '' @ formatInt (ErrorResponse.Code er) @ '', error: '' @ ErrorResponse.Message er
                        = ''error code: '' @ formatInt c @ '', error: '' @ m"
    by simp
  then show ?thesis
    by (rule error_text_inj)
qed

theorem checkResponse_error_text_determines_report_witness:
  \<open>snd (checkResponse ''{"errors":{"message":"code: 5, error: none","code":12}}'')
     = Some (Errorf (''error code: '' @ formatInt 12 @ '', error: '' @ ''code: 5, error: none''))
   \<and> UnmarshalErrorResponse ''{"message":"code: 5, error: none","code":12}'' zeroErrorResponse
     = (\<lparr>ErrorResponse.Message = ''code: 5, error: none'', ErrorResponse.Code = 12, Validations = []\<rparr>, None)
   \<and> ErrorResponse.Code \<lparr>ErrorResponse.Message = ''code: 5, error: none'', ErrorResponse.Code = 12,
                            Validations = []\<rparr> = 12\<close>
proof -
  let ?errors = \<open>''{"message":"code: 5, error: none","code":12}''\<close>
  let ?body = \<open>''{"errors":'' @ ?errors @ ''}''\<close>
  let ?b = "\<lparr>Data = '''', Errors = ?errors\<rparr>"
  let ?er = "\<lparr>ErrorResponse.Message = ''code: 5, error: none'', ErrorResponse.Code = 12, Validations = []\<rparr>"
  have h1: "UnmarshalBaseResponse ?body zeroBaseResponse = (?b, None)"
    by code_simp
  have h2: "UnmarshalErrorResponse (Errors ?b) zeroErrorResponse = (?er, None)"
    by code_simp
  have h3: "snd (checkResponse ?body)
              = Some (Errorf (''error code: '' @ formatInt 12 @ '', error: '' @ ''code: 5, error: none''))"
    by code_simp
  have "ErrorResponse.Code ?er = 12 \<and> ErrorResponse.Message ?er = ''code: 5, error: none''"
    by (rule checkResponse_error_text_determines_report [OF h1 _ _ _ h2 h3]) simp_all
  with h2 h3 show ?thesis
    by simp
qed

section \<open>Properties of the client\<close>

text \<open>
  C7.  The base URLs of a client depend on the sandbox flag alone: the two hosts, with
  the same scheme and the same paths; \<open>New\<close> is \<open>NewWithMode\<close> without the flag.
\<close>

theorem NewWithMode_base_urls:
  "APIBaseURL (NewWithMode m True) = ''https://sandbox.zarinpal.com/pg/v4/payment/''
   \<and> PaymentBaseURL (NewWithMode m True) = ''https://sandbox.zarinpal.com/pg/StartPay/''
   \<and> APIBaseURL (NewWithMode m False) = ''https://payment.zarinpal.com/pg/v4/payment/''
   \<and> PaymentBaseURL (NewWithMode m False) = ''https://payment.zarinpal.com/pg/StartPay/''
   \<and> APIBaseURL (NewWithMode m sandbox)
       = ''https://'' @ (if sandbox then ''sandbox'' else ''payment'') @ ''.zarinpal.com'' @ ''/pg/v4/payment/''
   \<and> PaymentBaseURL (NewWithMode m sandbox)
       = ''https://'' @ (if sandbox then ''sandbox'' else ''payment'') @ ''.zarinpal.com'' @ ''/pg/StartPay/''
   \<and> APIBaseURL (NewWithMode m sandbox) = APIBaseURL (NewWithMode m' sandbox)
   \<and> PaymentBaseURL (NewWithMode m sandbox) = PaymentBaseURL (NewWithMode m' sandbox)
   \<and> Zarinpal.MerchantID (NewWithMode m sandbox) = m
   \<and> client (NewWithMode m sandbox) = \<lparr>Timeout = 30 * Second\<rparr>
   \<and> New m = NewWithMode m False"
  by (simp add: NewWithMode_def New_def)

text \<open>
  C6.  The payment URL is the payment base URL of the client followed by the authority,
  whatever the authority is.
\<close>

theorem GetPaymentURL_is_concatenation:
  "fst (GetPaymentURL authority (z, w)) = PaymentBaseURL z @ authority
   \<and> length (fst (GetPaymentURL authority (z, w))) = length (PaymentBaseURL z) + length authority
   \<and> fst (GetPaymentURL ''ABC123'' (z\<lparr>PaymentBaseURL := ''https://sandbox.zarinpal.com/pg/StartPay/''\<rparr>, w))
       = ''https://sandbox.zarinpal.com/pg/StartPay/ABC123''
   \<and> fst (GetPaymentURL ''ABC123'' (NewWithMode m True, w))
       = ''https://sandbox.zarinpal.com/pg/StartPay/ABC123''"
  by (simp add: GetPaymentURL_def NewWithMode_def)

text \<open>
  C8.  Every method leaves the struct of the client as it found it.
\<close>

theorem methods_preserve_client:
  "fst (snd (NewPayment rt ctx amount description metadata callbackURL wages (z, w))) = z
   \<and> fst (snd (VerifyPayment rt ctx amount authority (z, w))) = z
   \<and> fst (snd (CheckPaymentStatus rt ctx amount authority (z, w))) = z
   \<and> fst (snd (GetPaymentURL authority (z, w))) = z"
proof -
  have N: "fst (snd (NewPayment rt ctx amount description metadata callbackURL wages (z, w))) = z"
    by (simp add: NewPayment_def Let_def split: sum.split prod.split option.split)
  have V: "fst (snd (VerifyPayment rt ctx amount authority (z, w))) = z"
    by (simp add: VerifyPayment_def Let_def split: sum.split prod.split option.split)
  have C: "fst (snd (CheckPaymentStatus rt ctx amount authority (z, w))) = z"
    using V by (auto simp add: CheckPaymentStatus_def Let_def split: prod.split option.split)
  have G: "fst (snd (GetPaymentURL authority (z, w))) = z"
    by (simp add: GetPaymentURL_def)
  from N V C G show ?thesis
    by simp
qed

section \<open>Properties of the status classification\<close>

text \<open>The two paths of \<open>CheckPaymentStatus\<close>.\<close>

lemma CheckPaymentStatus_verified:
  assumes "VerifyPayment rt ctx amount authority st = ((v, None), st')"
  shows "CheckPaymentStatus rt ctx amount authority st =
           ((\<lparr>IsSuccessful = (PaymentVerificationResponse.Code v = 100
                               \<or> PaymentVerificationResponse.Code v = 101),
              IsRepeated = (PaymentVerificationResponse.Code v = 101),
              PaymentStatus.RefID = PaymentVerificationResponse.RefID v,
              PaymentStatus.Message = PaymentVerificationResponse.Message v\<rparr>, None), st')"
  using assms
  by (simp add: CheckPaymentStatus_def Let_def PaymentCodeSuccess_def PaymentCodeAlreadyVerified_def)

lemma CheckPaymentStatus_failed:
  assumes "VerifyPayment rt ctx amount authority st = ((v, Some e), st')"
  shows "CheckPaymentStatus rt ctx amount authority st =
           ((\<lparr>IsSuccessful = False, IsRepeated = False, PaymentStatus.RefID = 0,
              PaymentStatus.Message = Error rt e\<rparr>, Some e), st')"
  using assms by (simp add: CheckPaymentStatus_def)

text \<open>
  C2.  When the verification succeeds, the two flags of the status are a function of the
  code of the verification response alone: 100 gives success, not repeated; 101 gives
  success, repeated; every other code gives neither.  The classification itself never
  fails: the error returned is nil.
\<close>

theorem CheckPaymentStatus_classification:
  assumes "VerifyPayment rt ctx amount authority st = ((v, None), st')"
  shows "(IsSuccessful (fst (fst (CheckPaymentStatus rt ctx amount authority st))),
          IsRepeated (fst (fst (CheckPaymentStatus rt ctx amount authority st))))
         = (if PaymentVerificationResponse.Code v = 100 then (True, False)
            else if PaymentVerificationResponse.Code v = 101 then (True, True)
            else (False, False))
         \<and> snd (fst (CheckPaymentStatus rt ctx amount authority st)) = None"
  using assms
  by (simp add: CheckPaymentStatus_def Let_def PaymentCodeSuccess_def PaymentCodeAlreadyVerified_def)

theorem CheckPaymentStatus_classification_witness:
  \<open>snd (fst (VerifyPayment
          (fixedGateway ''{"data":{"code":100,"message":"Paid","ref_id":201},"errors":[]}'')
          () 10000 ''A0001'' (New ''m1'', []))) = None
   \<and> (IsSuccessful (fst (fst (CheckPaymentStatus
          (fixedGateway ''{"data":{"code":100,"message":"Paid","ref_id":201},"errors":[]}'')
          () 10000 ''A0001'' (New ''m1'', [])))),
       IsRepeated (fst (fst (CheckPaymentStatus
          (fixedGateway ''{"data":{"code":100,"message":"Paid","ref_id":201},"errors":[]}'')
          () 10000 ''A0001'' (New ''m1'', [])))))
     = (True, False)
   \<and> snd (fst (VerifyPayment
          (fixedGateway ''{"data":{"code":101,"message":"Verified","ref_id":201},"errors":[]}'')
          () 10000 ''A0001'' (New ''m1'', []))) = None
   \<and> (IsSuccessful (fst (fst (CheckPaymentStatus
          (fixedGateway ''{"data":{"code":101,"message":"Verified","ref_id":201},"errors":[]}'')
          () 10000 ''A0001'' (New ''m1'', [])))),
       IsRepeated (fst (fst (CheckPaymentStatus
          (fixedGateway ''{"data":{"code":101,"message":"Verified","ref_id":201},"errors":[]}'')
          () 10000 ''A0001'' (New ''m1'', [])))))
     = (True, True)
   \<and> snd (fst (VerifyPayment
          (fixedGateway ''{"data":{"code":-51,"message":"Session is not valid"},"errors":[]}'')
          () 10000 ''A0001'' (New ''m1'', []))) = None
   \<and> (IsSuccessful (fst (fst (CheckPaymentStatus
          (fixedGateway ''{"data":{"code":-51,"message":"Session is not valid"},"errors":[]}'')
          () 10000 ''A0001'' (New ''m1'', [])))),
       IsRepeated (fst (fst (CheckPaymentStatus
          (fixedGateway ''{"data":{"code":-51,"message":"Session is not valid"},"errors":[]}'')
          () 10000 ''A0001'' (New ''m1'', [])))))
     = (False, False)\<close>
proof -
  let ?rt0 = \<open>fixedGateway ''{"data":{"code":100,"message":"Paid","ref_id":201},"errors":[]}''\<close>
  let ?rt1 = \<open>fixedGateway ''{"data":{"code":101,"message":"Verified","ref_id":201},"errors":[]}''\<close>
  let ?rt2 = \<open>fixedGateway ''{"data":{"code":-51,"message":"Session is not valid"},"errors":[]}''\<close>
  let ?st' = "(New ''m1'', [''https://payment.zarinpal.com/pg/v4/payment/verify.json''])"
  let ?v0 = "zeroPaymentVerificationResponse
               \<lparr>PaymentVerificationResponse.Code := 100,
                PaymentVerificationResponse.Message := ''Paid'',
                PaymentVerificationResponse.RefID := 201\<rparr>"
  let ?v1 = "zeroPaymentVerificationResponse
               \<lparr>PaymentVerificationResponse.Code := 101,
                PaymentVerificationResponse.Message := ''Verified'',
                PaymentVerificationResponse.RefID := 201\<rparr>"
  let ?v2 = "zeroPaymentVerificationResponse
               \<lparr>PaymentVerificationResponse.Code := - 51,
                PaymentVerificationResponse.Message := ''Session is not valid''\<rparr>"
  have h0: "VerifyPayment ?rt0 () 10000 ''A0001'' (New ''m1'', []) = ((?v0, None), ?st')"
    by code_simp
  have h1: "VerifyPayment ?rt1 () 10000 ''A0001'' (New ''m1'', []) = ((?v1, None), ?st')"
    by code_simp
  have h2: "VerifyPayment ?rt2 () 10000 ''A0001'' (New ''m1'', []) = ((?v2, None), ?st')"
    by code_simp
  show ?thesis
    using h0 h1 h2
      CheckPaymentStatus_classification [OF h0]
      CheckPaymentStatus_classification [OF h1]
      CheckPaymentStatus_classification [OF h2]
    by simp
qed

text \<open>
  C5.  When the verification succeeds, the status carries the message and the reference
  identifier of the verification response, whatever its code.
\<close>

theorem CheckPaymentStatus_copies_message_and_ref_id:
  assumes "VerifyPayment rt ctx amount authority st = ((v, None), st')"
  shows "PaymentStatus.Message (fst (fst (CheckPaymentStatus rt ctx amount authority st)))
           = PaymentVerificationResponse.Message v
         \<and> PaymentStatus.RefID (fst (fst (CheckPaymentStatus rt ctx amount authority st)))
           = PaymentVerificationResponse.RefID v"
  using CheckPaymentStatus_verified [OF assms] by simp

theorem CheckPaymentStatus_copies_message_and_ref_id_witness:
  \<open>fst (VerifyPayment
          (fixedGateway ''{"data":{"code":-51,"message":"Session is not valid","ref_id":7},"errors":[]}'')
          () 10000 ''A0001'' (New ''m1'', []))
     = (zeroPaymentVerificationResponse
          \<lparr>PaymentVerificationResponse.Code := - 51,
           PaymentVerificationResponse.Message := ''Session is not valid'',
           PaymentVerificationResponse.RefID := 7\<rparr>, None)
   \<and> PaymentStatus.Message (fst (fst (CheckPaymentStatus
          (fixedGateway ''{"data":{"code":-51,"message":"Session is not valid","ref_id":7},"errors":[]}'')
          () 10000 ''A0001'' (New ''m1'', []))))
     = ''Session is not valid''
   \<and> PaymentStatus.RefID (fst (fst (CheckPaymentStatus
          (fixedGateway ''{"data":{"code":-51,"message":"Session is not valid","ref_id":7},"errors":[]}'')
          () 10000 ''A0001'' (New ''m1'', []))))
     = 7\<close>
proof -
  let ?rt = \<open>fixedGateway ''{"data":{"code":-51,"message":"Session is not valid","ref_id":7},"errors":[]}''\<close>
  let ?v = "zeroPaymentVerificationResponse
              \<lparr>PaymentVerificationResponse.Code := - 51,
               PaymentVerificationResponse.Message := ''Session is not valid'',
               PaymentVerificationResponse.RefID := 7\<rparr>"
  have h: "VerifyPayment ?rt () 10000 ''A0001'' (New ''m1'', [])
             = ((?v, None), (New ''m1'', [''https://payment.zarinpal.com/pg/v4/payment/verify.json'']))"
    by code_simp
  show ?thesis
    using h CheckPaymentStatus_copies_message_and_ref_id [OF h] by simp
qed

text \<open>
  C10.  \<open>CheckPaymentStatus\<close> returns the error that \<open>VerifyPayment\<close> returns, nil
  included; with an error it returns the status that has both flags false, the
  reference identifier 0 and the text of the error as its message.
\<close>

theorem CheckPaymentStatus_error_propagation:
  "snd (fst (CheckPaymentStatus rt ctx amount authority st))
     = snd (fst (VerifyPayment rt ctx amount authority st))
   \<and> (\<forall>e. snd (fst (VerifyPayment rt ctx amount authority st)) = Some e \<longrightarrow>
          fst (fst (CheckPaymentStatus rt ctx amount authority st))
            = \<lparr>IsSuccessful = False, IsRepeated = False, PaymentStatus.RefID = 0,
               PaymentStatus.Message = Error rt e\<rparr>)"
proof -
  obtain v eo st' where V: "VerifyPayment rt ctx amount authority st = ((v, eo), st')"
    by (metis prod.exhaust)
  show ?thesis
  proof (cases eo)
    case None
    with V show ?thesis
      using CheckPaymentStatus_verified [of rt ctx amount authority st v st'] by simp
  next
    case (Some e)
    with V show ?thesis
      using CheckPaymentStatus_failed [of rt ctx amount authority st v e st'] by simp
  qed
qed

theorem CheckPaymentStatus_error_propagation_witness:
  \<open>snd (fst (VerifyPayment unreachableGateway () 10000 ''A0001'' (New ''m1'', [])))
     = Some (OtherError ''connection refused'')
   \<and> fst (CheckPaymentStatus unreachableGateway () 10000 ''A0001'' (New ''m1'', []))
     = (\<lparr>IsSuccessful = False, IsRepeated = False, PaymentStatus.RefID = 0,
         PaymentStatus.Message = ''connection refused''\<rparr>, Some (OtherError ''connection refused''))
   \<and> snd (fst (VerifyPayment
          (fixedGateway ''{"data":[],"errors":{"message":"Session is not active","code":-54,"validations":[]}}'')
          () 10000 ''A0001'' (New ''m1'', [])))
     = Some (Errorf ''error code: -54, error: Session is not active'')
   \<and> fst (CheckPaymentStatus
          (fixedGateway ''{"data":[],"errors":{"message":"Session is not active","code":-54,"validations":[]}}'')
          () 10000 ''A0001'' (New ''m1'', []))
     = (\<lparr>IsSuccessful = False, IsRepeated = False, PaymentStatus.RefID = 0,
         PaymentStatus.Message = ''error code: -54, error: Session is not active''\<rparr>,
        Some (Errorf ''error code: -54, error: Session is not active''))
   \<and> snd (fst (VerifyPayment
          (fixedGateway ''{"data":{"code":100,"message":"Paid","ref_id":201},"errors":[]}'')
          () 10000 ''A0001'' (New ''m1'', [])))
     = None
   \<and> snd (fst (CheckPaymentStatus
          (fixedGateway ''{"data":{"code":100,"message":"Paid","ref_id":201},"errors":[]}'')
          () 10000 ''A0001'' (New ''m1'', [])))
     = None\<close>
proof -
  let ?rt2 = \<open>fixedGateway
     ''{"data":[],"errors":{"message":"Session is not active","code":-54,"validations":[]}}''\<close>
  let ?rt3 = \<open>fixedGateway ''{"data":{"code":100,"message":"Paid","ref_id":201},"errors":[]}''\<close>
  let ?st = "(New ''m1'', [] :: string list)"
  have h1: "snd (fst (VerifyPayment unreachableGateway () 10000 ''A0001'' ?st))
              = Some (OtherError ''connection refused'')"
    by code_simp
  have h2: "snd (fst (VerifyPayment ?rt2 () 10000 ''A0001'' ?st))
              = Some (Errorf ''error code: -54, error: Session is not active'')"
    by code_simp
  have h3: "snd (fst (VerifyPayment ?rt3 () 10000 ''A0001'' ?st)) = None"
    by code_simp
  have t1: "Error unreachableGateway (OtherError ''connection refused'') = ''connection refused''"
    by (simp add: Error_def)
  have t2: "Error ?rt2 (Errorf ''error code: -54, error: Session is not active'')
              = ''error code: -54, error: Session is not active''"
    by (simp add: Error_def)
  show ?thesis
    using h1 h2 h3 t1 t2
      CheckPaymentStatus_error_propagation [of unreachableGateway "()" 10000 "''A0001''" ?st]
      CheckPaymentStatus_error_propagation [of ?rt2 "()" 10000 "''A0001''" ?st]
      CheckPaymentStatus_error_propagation [of ?rt3 "()" 10000 "''A0001''" ?st]
    by (simp add: prod_eq_iff)
qed

section \<open>Payment creation\<close>

text \<open>
  When the gateway answers a creation request with an error report, \<open>NewPayment\<close>
  returns the error of \<open>checkResponse\<close> and a response with no field set.
\<close>

theorem NewPayment_returns_gateway_error:
  assumes "Marshal rt (PaymentRequestPayload
             \<lparr>PaymentRequest.MerchantID = Zarinpal.MerchantID z,
              PaymentRequest.Amount = amount,
              PaymentRequest.Description = description,
              Metadata = metadata,
              CallbackURL = callbackURL,
              Wages = wages\<rparr>) = Inr marshalled"
    and "roundTrip rt (client z) ctx ''POST'' (APIBaseURL z @ ''request.json'')
           [(''Content-Type'', ''application/json'')] marshalled w = (Inr bodyBytes, w')"
    and "checkResponse bodyBytes = (rawMessage, Some e)"
  shows "NewPayment rt ctx amount description metadata callbackURL wages (z, w)
           = ((zeroPaymentCreationResponse, Some e), (z, w'))"
  using assms by (simp add: NewPayment_def)

theorem NewPayment_returns_gateway_error_witness:
  \<open>checkResponse
      ''{"data":[],"errors":{"message":"The amount must be at least 1000.","code":-9,"validations":[]}}''
     = ([], Some (Errorf ''error code: -9, error: The amount must be at least 1000.''))
   \<and> NewPayment
        (fixedGateway
           ''{"data":[],"errors":{"message":"The amount must be at least 1000.","code":-9,"validations":[]}}'')
        () 999 ''Test payment with invalid amount'' None ''http://localhost:8080/callback'' []
        (NewWithMode ''m1'' True, [])
     = ((zeroPaymentCreationResponse,
         Some (Errorf ''error code: -9, error: The amount must be at least 1000.'')),
        (NewWithMode ''m1'' True, [''https://sandbox.zarinpal.com/pg/v4/payment/request.json'']))\<close>
proof -
  let ?reply = \<open>''{"data":[],"errors":{"message":"The amount must be at least 1000.","code":-9,"validations":[]}}''\<close>
  let ?rt = "fixedGateway ?reply"
  let ?z = "NewWithMode ''m1'' True"
  let ?e = "Errorf ''error code: -9, error: The amount must be at least 1000.''"
  have h1: "Marshal ?rt (PaymentRequestPayload
             \<lparr>PaymentRequest.MerchantID = Zarinpal.MerchantID ?z,
              PaymentRequest.Amount = 999,
              PaymentRequest.Description = ''Test payment with invalid amount'',
              Metadata = None,
              CallbackURL = ''http://localhost:8080/callback'',
              Wages = []\<rparr>) = Inr ''{}''"
    by (simp add: fixedGateway_def)
  have h2: "roundTrip ?rt (client ?z) () ''POST'' (APIBaseURL ?z @ ''request.json'')
             [(''Content-Type'', ''application/json'')] ''{}'' []
             = (Inr ?reply, [''https://sandbox.zarinpal.com/pg/v4/payment/request.json''])"
    by (simp add: fixedGateway_def NewWithMode_def)
  have h3: "checkResponse ?reply = ([], Some ?e)"
    by code_simp
  show ?thesis
    using h3 NewPayment_returns_gateway_error [OF h1 h2 h3] by simp
qed

end
